theory Spec2Isabelle
  imports Main "HOL-Library.Word"
begin

unbundle bit_operations_syntax

section \<open>Machine integers and the static allocator (jx\_static\_allocator.c)\<close>

text \<open>
  The library is written for 32-bit microcontrollers (STM32 / Cortex-M): \<open>size_t\<close> and data
  pointers are 32-bit words, and arithmetic on them wraps around.  \<open>NULL\<close> is the word 0.
\<close>

type_synonym size_t = "32 word"
type_synonym ptr = "32 word"

definition NULL :: ptr where
  "NULL = 0"

text \<open>\<^verbatim>\<open>#define ALIGN_4(x)  (((x) + 3) & ~3)\<close>\<close>

definition ALIGN_4 :: "size_t \<Rightarrow> size_t" where
  "ALIGN_4 x = (x + 3) AND NOT 3"

record jx_static_allocator_t =
  pool_start :: ptr
  pool_size :: size_t
  pool_offset :: size_t

text \<open>\<open>sizeof(jx_static_allocator_t)\<close>: one pointer and two \<open>size_t\<close> on the 32-bit target.\<close>

definition sizeof_jx_static_allocator_t :: size_t where
  "sizeof_jx_static_allocator_t = 12"

text \<open>
  The file keeps one static variable, \<^verbatim>\<open>static jx_static_allocator_t *allocator = NULL\<close>.
  It is modelled by a \<open>jx_static_allocator_t option\<close> that every function of the file takes
  and returns: \<open>None\<close> is the null pointer, \<open>Some a\<close> the instance it points to.
\<close>

definition jx_static_allocator_init ::
  "jx_static_allocator_t option \<Rightarrow> ptr \<Rightarrow> size_t \<Rightarrow> ptr \<times> jx_static_allocator_t option" where
  "jx_static_allocator_init allocator buffer sz =
     (if buffer = NULL \<or> sz < ALIGN_4 sizeof_jx_static_allocator_t then (NULL, allocator)
      else (buffer,
            Some \<lparr>pool_start = buffer + ALIGN_4 sizeof_jx_static_allocator_t,
                  pool_size = sz - ALIGN_4 sizeof_jx_static_allocator_t,
                  pool_offset = 0\<rparr>))"

definition jx_static_malloc ::
  "jx_static_allocator_t option \<Rightarrow> size_t \<Rightarrow> ptr \<times> jx_static_allocator_t option" where
  "jx_static_malloc allocator sz =
     (case allocator of
        None \<Rightarrow> (NULL, allocator)
      | Some a \<Rightarrow>
          if sz = 0 then (NULL, allocator)
          else if pool_offset a + ALIGN_4 sz > pool_size a then (NULL, allocator)
          else (pool_start a + pool_offset a,
                Some (a\<lparr>pool_offset := pool_offset a + ALIGN_4 sz\<rparr>)))"

definition jx_static_free ::
  "jx_static_allocator_t option \<Rightarrow> ptr \<Rightarrow> jx_static_allocator_t option" where
  "jx_static_free allocator p = allocator"

definition jx_static_reset :: "jx_static_allocator_t option \<Rightarrow> jx_static_allocator_t option" where
  "jx_static_reset allocator =
     (case allocator of None \<Rightarrow> None | Some a \<Rightarrow> Some (a\<lparr>pool_offset := 0\<rparr>))"

section \<open>Caller memory\<close>

text \<open>
  The element tree points into memory the caller owns (\<open>value_p\<close>).  Caller memory is a list of
  objects (blocks), each a sequence of bytes (C \<open>char\<close>s); a pointer is a block and a byte offset
  in it, and \<open>None\<close> is the null pointer.  An access through a null pointer or outside the
  block it points into is undefined behaviour in C; the model makes it a value, a \<open>fault\<close>, so
  that it cannot pass for a result.
\<close>

datatype fault = NullDereference | OutOfBounds

datatype pointer = Pointer (block: nat) (offset: nat)

type_synonym memory = "string list"

definition NUL :: char where
  "NUL = CHR 0x00"

definition mem_read :: "memory \<Rightarrow> pointer option \<Rightarrow> nat \<Rightarrow> fault + string" where
  "mem_read mem p n =
     (case p of
        None \<Rightarrow> Inl NullDereference
      | Some q \<Rightarrow>
          if block q < length mem \<and> offset q + n \<le> length (mem ! block q)
          then Inr (take n (drop (offset q) (mem ! block q)))
          else Inl OutOfBounds)"

definition mem_write :: "memory \<Rightarrow> pointer option \<Rightarrow> string \<Rightarrow> fault + memory" where
  "mem_write mem p cs =
     (case p of
        None \<Rightarrow> Inl NullDereference
      | Some q \<Rightarrow>
          if block q < length mem \<and> offset q + length cs \<le> length (mem ! block q)
          then Inr (mem[block q := take (offset q) (mem ! block q) @ cs
                                    @ drop (offset q + length cs) (mem ! block q)])
          else Inl OutOfBounds)"

text \<open>
  C strings: \<open>strlen\<close> counts the bytes before the first NUL; reading a string through a pointer
  runs to the first NUL of the block and faults when the block holds none.  \<open>strncpy(dest, src, n)\<close>
  writes exactly \<open>n\<close> bytes: the first \<open>n\<close> bytes of the source string, then NUL padding when
  the source is shorter than \<open>n\<close>, and no terminator when it is not.
\<close>

definition strlen :: "string \<Rightarrow> nat" where
  "strlen s = length (takeWhile (\<lambda>c. c \<noteq> NUL) s)"

definition mem_read_string :: "memory \<Rightarrow> pointer option \<Rightarrow> fault + string" where
  "mem_read_string mem p =
     (case p of
        None \<Rightarrow> Inl NullDereference
      | Some q \<Rightarrow>
          if block q < length mem \<and> NUL \<in> set (drop (offset q) (mem ! block q))
          then Inr (takeWhile (\<lambda>c. c \<noteq> NUL) (drop (offset q) (mem ! block q)))
          else Inl OutOfBounds)"

definition strncpy :: "memory \<Rightarrow> pointer option \<Rightarrow> string \<Rightarrow> nat \<Rightarrow> fault + memory" where
  "strncpy mem dest src n =
     mem_write mem dest (take n (takeWhile (\<lambda>c. c \<noteq> NUL) src) @ replicate (n - strlen src) NUL)"

text \<open>
  A \<open>double\<close> is only ever copied by this library, never computed with: it is modelled by
  its object representation, eight bytes.  \<open>bool\<close> is one byte, \<open>uint32_t\<close> four.
\<close>

datatype double = Double char char char char char char char char

fun double_bytes :: "double \<Rightarrow> string" where
  "double_bytes (Double a b c d e f g h) = [a, b, c, d, e, f, g, h]"

fun bytes_double :: "string \<Rightarrow> double" where
  "bytes_double [a, b, c, d, e, f, g, h] = Double a b c d e f g h"
| "bytes_double cs = Double NUL NUL NUL NUL NUL NUL NUL NUL"

section \<open>The value tree of the external codec\<close>

text \<open>
  Modelled from the spec: the JSON codec (cJSON) is an external library and not under src/.  The
  spec describes its value tree as a generic JSON value (null, bool, number, string, array,
  object) and its lookup as exact-case by property name; the model follows the documented
  behaviour of the cJSON functions the parser calls.  An object keeps its members in order and the
  lookup returns the first member of that name; \<open>cJSON_GetArraySize\<close> and \<open>cJSON_GetArrayItem\<close>
  walk the children of any node, so they count and index the members of an object too and see no
  children in a scalar.
\<close>

datatype cJSON =
    cJSON_NULL
  | cJSON_False
  | cJSON_True
  | cJSON_Number double
  | cJSON_String string
  | cJSON_Array "cJSON list"
  | cJSON_Object "(string \<times> cJSON) list"

fun cJSON_IsNull :: "cJSON \<Rightarrow> bool" where
  "cJSON_IsNull cJSON_NULL = True"
| "cJSON_IsNull _ = False"

fun cJSON_IsBool :: "cJSON \<Rightarrow> bool" where
  "cJSON_IsBool cJSON_False = True"
| "cJSON_IsBool cJSON_True = True"
| "cJSON_IsBool _ = False"

fun cJSON_IsTrue :: "cJSON \<Rightarrow> bool" where
  "cJSON_IsTrue cJSON_True = True"
| "cJSON_IsTrue _ = False"

fun cJSON_IsNumber :: "cJSON \<Rightarrow> bool" where
  "cJSON_IsNumber (cJSON_Number d) = True"
| "cJSON_IsNumber _ = False"

fun cJSON_IsString :: "cJSON \<Rightarrow> bool" where
  "cJSON_IsString (cJSON_String s) = True"
| "cJSON_IsString _ = False"

fun cJSON_IsObject :: "cJSON \<Rightarrow> bool" where
  "cJSON_IsObject (cJSON_Object ms) = True"
| "cJSON_IsObject _ = False"

fun cJSON_IsArray :: "cJSON \<Rightarrow> bool" where
  "cJSON_IsArray (cJSON_Array xs) = True"
| "cJSON_IsArray _ = False"

fun valuedouble :: "cJSON \<Rightarrow> double" where
  "valuedouble (cJSON_Number d) = d"
| "valuedouble _ = Double NUL NUL NUL NUL NUL NUL NUL NUL"

fun valuestring :: "cJSON \<Rightarrow> string option" where
  "valuestring (cJSON_String s) = Some s"
| "valuestring _ = None"

fun child :: "cJSON \<Rightarrow> cJSON list" where
  "child (cJSON_Array xs) = xs"
| "child (cJSON_Object ms) = map snd ms"
| "child _ = []"

fun cJSON_GetObjectItemCaseSensitive :: "cJSON \<Rightarrow> string \<Rightarrow> cJSON option" where
  "cJSON_GetObjectItemCaseSensitive (cJSON_Object ms) name = map_of ms name"
| "cJSON_GetObjectItemCaseSensitive _ name = None"

definition cJSON_GetArraySize :: "cJSON \<Rightarrow> nat" where
  "cJSON_GetArraySize array = length (child array)"

definition cJSON_GetArrayItem :: "cJSON \<Rightarrow> nat \<Rightarrow> cJSON option" where
  "cJSON_GetArrayItem array index =
     (if index < length (child array) then Some (child array ! index) else None)"

section \<open>Elements (jx\_types.h) and the inline helpers (jx\_internal.h)\<close>

text \<open>
  \<open>JX_ELEMENT\<close> has the fields of the C struct.  \<open>property\<close> is the C string held in the
  \<open>char[JX_PROPERTY_MAX_SIZE]\<close> array; \<open>element\<close> is the pointer to the caller's array of child
  elements: \<open>None\<close> is the null pointer, \<open>Some ch\<close> the whole array as the caller declared it,
  so that \<open>length ch\<close> is the number of elements that really exist behind the pointer.
\<close>

datatype JX_STATUS = JX_SUCCESS | JX_ERROR

datatype JX_PARSE_MODE = JX_MODE_RELAXED | JX_MODE_STRICT

datatype JX_ELEMENT_TYPE =
  JX_INVALID | JX_NULL | JX_BOOLEAN | JX_NUMBER | JX_STRING | JX_ARRAY | JX_OBJECT

datatype JX_ELEMENT_STATUS = JX_ELEMENT_NOT_UPDATED | JX_ELEMENT_UPDATED

datatype JX_ELEMENT = JX_ELEMENT
  (property: string)
  (type: JX_ELEMENT_TYPE)
  (value_len: "8 word")
  (value_p: "pointer option")
  (status: JX_ELEMENT_STATUS)
  (element: "JX_ELEMENT list option")
  (element_size: "16 word")

definition JX_PROPERTY_MAX_SIZE :: nat where
  "JX_PROPERTY_MAX_SIZE = 50"

fun jx_set_updated :: "JX_ELEMENT \<Rightarrow> JX_ELEMENT" where
  "jx_set_updated (JX_ELEMENT p t l v s c z) = JX_ELEMENT p t l v JX_ELEMENT_UPDATED c z"

fun jx_clear_status :: "JX_ELEMENT \<Rightarrow> JX_ELEMENT" where
  "jx_clear_status (JX_ELEMENT p t l v s c z) = JX_ELEMENT p t l v JX_ELEMENT_NOT_UPDATED c z"

fun set_value_len :: "JX_ELEMENT \<Rightarrow> 8 word \<Rightarrow> JX_ELEMENT" where
  "set_value_len (JX_ELEMENT p t l v s c z) n = JX_ELEMENT p t n v s c z"

fun set_element :: "JX_ELEMENT \<Rightarrow> JX_ELEMENT list option \<Rightarrow> JX_ELEMENT" where
  "set_element (JX_ELEMENT p t l v s c z) c' = JX_ELEMENT p t l v s c' z"

definition jx_set_bool :: "JX_ELEMENT \<Rightarrow> bool \<Rightarrow> memory \<Rightarrow> fault + (JX_ELEMENT \<times> memory)" where
  "jx_set_bool e b mem =
     (case mem_write mem (value_p e) [if b then CHR 0x01 else NUL] of
        Inl f \<Rightarrow> Inl f
      | Inr mem' \<Rightarrow> Inr (jx_set_updated e, mem'))"

definition jx_set_number :: "JX_ELEMENT \<Rightarrow> double \<Rightarrow> memory \<Rightarrow> fault + (JX_ELEMENT \<times> memory)" where
  "jx_set_number e d mem =
     (case mem_write mem (value_p e) (double_bytes d) of
        Inl f \<Rightarrow> Inl f
      | Inr mem' \<Rightarrow> Inr (jx_set_updated e, mem'))"

definition jx_set_string :: "JX_ELEMENT \<Rightarrow> string \<Rightarrow> memory \<Rightarrow> fault + (JX_ELEMENT \<times> memory)" where
  "jx_set_string e s mem =
     (case strncpy mem (value_p e) s JX_PROPERTY_MAX_SIZE of
        Inl f \<Rightarrow> Inl f
      | Inr mem' \<Rightarrow> Inr (jx_set_updated e, mem'))"

definition jx_set_null_u32 :: "JX_ELEMENT \<Rightarrow> memory \<Rightarrow> fault + (JX_ELEMENT \<times> memory)" where
  "jx_set_null_u32 e mem =
     (case mem_write mem (value_p e) [NUL, NUL, NUL, NUL] of
        Inl f \<Rightarrow> Inl f
      | Inr mem' \<Rightarrow> Inr (jx_set_updated e, mem'))"

section \<open>The decoder: \_jx\_object\_to\_struct (jx\_parser.c)\<close>

text \<open>
  The cases of \<^verbatim>\<open>switch (element[i].type)\<close> that do not recurse: \<open>JX_NULL\<close>,
  \<open>JX_BOOLEAN\<close>, \<open>JX_NUMBER\<close>, \<open>JX_STRING\<close> and \<open>default\<close>.  The test of the string case,
  \<^verbatim>\<open>cJSON_IsString(object) && object->valuestring\<close>, is \<open>valuestring object \<noteq> None\<close>.
\<close>

definition object_to_leaf :: "cJSON \<Rightarrow> JX_ELEMENT \<Rightarrow> memory \<Rightarrow> fault + (JX_ELEMENT \<times> memory)" where
  "object_to_leaf object e mem =
     (case type e of
        JX_NULL \<Rightarrow>
          if cJSON_IsNull object then jx_set_null_u32 e mem else Inr (jx_clear_status e, mem)
      | JX_BOOLEAN \<Rightarrow>
          if cJSON_IsBool object then jx_set_bool e (cJSON_IsTrue object) mem
          else Inr (jx_clear_status e, mem)
      | JX_NUMBER \<Rightarrow>
          if cJSON_IsNumber object then jx_set_number e (valuedouble object) mem
          else Inr (jx_clear_status e, mem)
      | JX_STRING \<Rightarrow>
          (case valuestring object of
             Some s \<Rightarrow> jx_set_string e s mem
           | None \<Rightarrow> Inr (jx_clear_status e, mem))
      | _ \<Rightarrow> Inr (e, mem))"

text \<open>
  \<open>pointee old p\<close> is the array behind an element pointer after a call that was given the
  pointer: the array the call returns, or the old one when the call returns none.
\<close>

definition pointee :: "'a \<Rightarrow> 'a option \<Rightarrow> 'a" where
  "pointee old p = (case p of None \<Rightarrow> old | Some new \<Rightarrow> new)"

fun tsize :: "JX_ELEMENT \<Rightarrow> nat" where
  "tsize (JX_ELEMENT p t l v s c z) =
     Suc (case c of None \<Rightarrow> 0 | Some ch \<Rightarrow> sum_list (map tsize ch))"

text \<open>
  \<^verbatim>\<open>_jx_object_to_struct(main_object, element, size, mode)\<close>.  The pointer \<open>element\<close> is given
  as the array it points into and the index \<open>base\<close> of the element it points at, so that
  \<^verbatim>\<open>&element[i].element[j]\<close> is the child array with \<open>base = j\<close>; an index past the end of
  the array is a fault.  The function returns the status, the array as the walk leaves it and the
  memory as the walk leaves it.
  \<^item> \<open>jx_object_to_struct\<close> is the entry: \<open>IF_JX_ERROR_EXIT(main_object)\<close>, and
    \<open>JX_RETURN_IF_NULL(&element[i])\<close>, which for a null \<open>element\<close> returns \<open>false\<close>, that is
    \<open>JX_SUCCESS\<close>, in the first iteration.
  \<^item> \<open>for_elements\<close> is the loop \<^verbatim>\<open>for (i = 0; i < size; ++i)\<close> from index \<open>i\<close>.
  \<^item> \<open>switch_type\<close> is the \<open>switch\<close> on the type of one element, with the node found for it;
    status \<open>JX_ERROR\<close> is \<^verbatim>\<open>goto end\<close>.
  \<^item> \<open>for_items\<close> is the loop \<^verbatim>\<open>for (j = 0; j < element[i].value_len; ++j)\<close> of the array
    case, from index \<open>j\<close>; \<open>value_len\<close> is a \<open>uint8_t\<close>, so the count is taken modulo 256.
\<close>

function jx_object_to_struct ::
    "cJSON option \<Rightarrow> JX_ELEMENT list option \<Rightarrow> nat \<Rightarrow> nat \<Rightarrow> JX_PARSE_MODE \<Rightarrow> memory
      \<Rightarrow> fault + (JX_STATUS \<times> JX_ELEMENT list option \<times> memory)"
  and for_elements ::
    "cJSON \<Rightarrow> JX_ELEMENT list \<Rightarrow> nat \<Rightarrow> nat \<Rightarrow> nat \<Rightarrow> JX_PARSE_MODE \<Rightarrow> memory
      \<Rightarrow> fault + (JX_STATUS \<times> JX_ELEMENT list \<times> memory)"
  and switch_type ::
    "cJSON \<Rightarrow> JX_ELEMENT \<Rightarrow> JX_PARSE_MODE \<Rightarrow> memory
      \<Rightarrow> fault + (JX_STATUS \<times> JX_ELEMENT \<times> memory)"
  and for_items ::
    "cJSON \<Rightarrow> JX_ELEMENT list \<Rightarrow> nat \<Rightarrow> nat \<Rightarrow> JX_PARSE_MODE \<Rightarrow> memory
      \<Rightarrow> fault + (JX_STATUS \<times> JX_ELEMENT list \<times> memory)"
where
  "jx_object_to_struct main_object elem base sz mode mem =
     (case main_object of
        None \<Rightarrow> Inr (JX_ERROR, elem, mem)
      | Some m \<Rightarrow>
          (case elem of
             None \<Rightarrow> Inr (JX_SUCCESS, None, mem)
           | Some els \<Rightarrow>
               (case for_elements m els base 0 sz mode mem of
                  Inl f \<Rightarrow> Inl f
                | Inr (st, els', mem') \<Rightarrow> Inr (st, Some els', mem'))))"
| "for_elements m els base i sz mode mem =
     (if sz \<le> i then Inr (JX_SUCCESS, els, mem)
      else if length els \<le> base + i then Inl OutOfBounds
      else
        (case (if property (els ! (base + i)) = [] then Some m
               else cJSON_GetObjectItemCaseSensitive m (property (els ! (base + i)))) of
           None \<Rightarrow>
             if mode = JX_MODE_STRICT then Inr (JX_ERROR, els, mem)
             else for_elements m els base (Suc i) sz mode mem
         | Some object \<Rightarrow>
             (case switch_type object (els ! (base + i)) mode mem of
                Inl f \<Rightarrow> Inl f
              | Inr (JX_ERROR, e', mem') \<Rightarrow> Inr (JX_ERROR, els[base + i := e'], mem')
              | Inr (JX_SUCCESS, e', mem') \<Rightarrow>
                  for_elements m (els[base + i := e']) base (Suc i) sz mode mem')))"
| "switch_type object e mode mem =
     (case type e of
        JX_OBJECT \<Rightarrow>
          if cJSON_IsObject object then
            (case jx_object_to_struct (Some object) (element e) 0 (unat (value_len e)) mode mem of
               Inl f \<Rightarrow> Inl f
             | Inr (JX_ERROR, ch', mem') \<Rightarrow> Inr (JX_ERROR, set_element e ch', mem')
             | Inr (JX_SUCCESS, ch', mem') \<Rightarrow>
                 Inr (JX_SUCCESS, jx_set_updated (set_element e ch'), mem'))
          else Inr (JX_SUCCESS, jx_clear_status e, mem)
      | JX_ARRAY \<Rightarrow>
          (case element e of
             None \<Rightarrow>
               Inr (JX_SUCCESS,
                    jx_set_updated (set_value_len e (of_nat (cJSON_GetArraySize object))), mem)
           | Some ch \<Rightarrow>
               (case for_items object ch 0
                       (unat (of_nat (cJSON_GetArraySize object) :: 8 word)) mode mem of
                  Inl f \<Rightarrow> Inl f
                | Inr (JX_ERROR, ch', mem') \<Rightarrow>
                    Inr (JX_ERROR,
                         set_element (set_value_len e (of_nat (cJSON_GetArraySize object)))
                           (Some ch'), mem')
                | Inr (JX_SUCCESS, ch', mem') \<Rightarrow>
                    Inr (JX_SUCCESS,
                         jx_set_updated
                           (set_element (set_value_len e (of_nat (cJSON_GetArraySize object)))
                              (Some ch')), mem')))
      | _ \<Rightarrow>
          (case object_to_leaf object e mem of
             Inl f \<Rightarrow> Inl f
           | Inr (e', mem') \<Rightarrow> Inr (JX_SUCCESS, e', mem')))"
| "for_items object ch j n mode mem =
     (if n \<le> j then Inr (JX_SUCCESS, ch, mem)
      else
        (case cJSON_GetArrayItem object j of
           None \<Rightarrow> for_items object ch (Suc j) n mode mem
         | Some item \<Rightarrow>
             if length ch \<le> j then Inl OutOfBounds
             else
               (case jx_object_to_struct (Some item) (Some ch) j
                       (if value_len (ch ! j) = 0 then 1 else unat (value_len (ch ! j))) mode mem of
                  Inl f \<Rightarrow> Inl f
                | Inr (JX_ERROR, ch', mem') \<Rightarrow> Inr (JX_ERROR, pointee ch ch', mem')
                | Inr (JX_SUCCESS, ch', mem') \<Rightarrow>
                    for_items object ((pointee ch ch')[j := jx_set_updated (pointee ch ch' ! j)])
                      (Suc j) n mode mem')))"
  by pat_completeness auto

text \<open>
  Termination.  The walk descends the element tree, but it also passes the arrays it has updated
  to its later calls; the measure is the number of elements below an array, which no call changes.
\<close>

definition asize :: "JX_ELEMENT list \<Rightarrow> nat" where
  "asize els = sum_list (map tsize els)"

lemma tsize_setters [simp]:
  "tsize (jx_set_updated e) = tsize e"
  "tsize (jx_clear_status e) = tsize e"
  "tsize (set_value_len e n) = tsize e"
  by (cases e; simp)+

lemma element_setters [simp]:
  "element (jx_set_updated e) = element e"
  "element (jx_clear_status e) = element e"
  "element (set_value_len e n) = element e"
  "element (set_element e c) = c"
  by (cases e; simp)+

lemma tsize_set_element:
  "map_option (map tsize) c' = map_option (map tsize) (element e) \<Longrightarrow> tsize (set_element e c') = tsize e"
  by (cases e; cases c'; cases "element e"; auto)

lemma tsize_object_to_leaf:
  "object_to_leaf object e mem = Inr (e', mem') \<Longrightarrow> tsize e' = tsize e"
  by (auto simp: object_to_leaf_def jx_set_null_u32_def jx_set_bool_def jx_set_number_def
      jx_set_string_def split: JX_ELEMENT_TYPE.splits if_splits sum.splits option.splits)

lemma map_tsize_update:
  "tsize e' = tsize (els ! k) \<Longrightarrow> map tsize (els[k := e']) = map tsize els"
  by (cases "k < length els") (simp_all add: map_update list_update_same_conv list_update_beyond)

lemma shape_preserved:
  "jx_object_to_struct_for_elements_switch_type_for_items_dom (Inl (Inl (main_object, elem, base, sz, mode, mem)))
     \<Longrightarrow> (\<forall>st el' mem'. jx_object_to_struct main_object elem base sz mode mem = Inr (st, el', mem')
           \<longrightarrow> map_option (map tsize) el' = map_option (map tsize) elem)"
  "jx_object_to_struct_for_elements_switch_type_for_items_dom (Inl (Inr (m, els, base, i, sz, mode, mem)))
     \<Longrightarrow> (\<forall>st els' mem'. for_elements m els base i sz mode mem = Inr (st, els', mem')
           \<longrightarrow> map tsize els' = map tsize els)"
  "jx_object_to_struct_for_elements_switch_type_for_items_dom (Inr (Inl (object, e, mode, mem)))
     \<Longrightarrow> (\<forall>st e' mem'. switch_type object e mode mem = Inr (st, e', mem')
           \<longrightarrow> tsize e' = tsize e)"
  "jx_object_to_struct_for_elements_switch_type_for_items_dom (Inr (Inr (object, ch, j, n, mode, mem)))
     \<Longrightarrow> (\<forall>st ch' mem'. for_items object ch j n mode mem = Inr (st, ch', mem')
           \<longrightarrow> map tsize ch' = map tsize ch)"
proof (induct rule: jx_object_to_struct_for_elements_switch_type_for_items.pinduct)
  case (1 main_object elem base sz mode mem)
  show ?case
  proof (intro allI impI)
    fix st el' mem'
    assume r: "jx_object_to_struct main_object elem base sz mode mem = Inr (st, el', mem')"
    note eq = jx_object_to_struct.psimps [OF 1(1)]
    show "map_option (map tsize) el' = map_option (map tsize) elem"
    proof (cases main_object)
      case None
      with r eq show ?thesis by simp
    next
      case m: (Some m)
      show ?thesis
      proof (cases elem)
        case None
        with r eq m show ?thesis by simp
      next
        case (Some els)
        from r obtain els' where
          "for_elements m els base 0 sz mode mem = Inr (st, els', mem')" "el' = Some els'"
          unfolding eq by (auto simp: m Some split: sum.splits)
        with 1(2) [OF m Some] Some show ?thesis by simp
      qed
    qed
  qed
next
  case (2 m els base i sz mode mem)
  show ?case
  proof (intro allI impI)
    fix st els' mem'
    assume r: "for_elements m els base i sz mode mem = Inr (st, els', mem')"
    note eq = for_elements.psimps [OF 2(1)]
    show "map tsize els' = map tsize els"
    proof (cases "sz \<le> i")
      case True
      with r eq show ?thesis by simp
    next
      case a: False
      show ?thesis
      proof (cases "length els \<le> base + i")
        case True
        with r eq a show ?thesis by simp
      next
        case b: False
        show ?thesis
        proof (cases "if property (els ! (base + i)) = [] then Some m
               else cJSON_GetObjectItemCaseSensitive m (property (els ! (base + i)))")
          case None
          show ?thesis
          proof (cases "mode = JX_MODE_STRICT")
            case True
            with r a b None show ?thesis unfolding eq by simp
          next
            case False
            from r a b None False
            have "for_elements m els base (Suc i) sz mode mem = Inr (st, els', mem')"
              unfolding eq by simp
            with 2(2) [OF a b None False] show ?thesis by simp
          qed
        next
          case (Some object)
          show ?thesis
          proof (cases "switch_type object (els ! (base + i)) mode mem")
            case (Inl f)
            with r a b Some show ?thesis unfolding eq by simp
          next
            case (Inr t)
            obtain s e' mem1 where t: "t = (s, e', mem1)" by (cases t) auto
            from 2(3) [OF a b Some] Inr t have te: "tsize e' = tsize (els ! (base + i))" by simp
            show ?thesis
            proof (cases s)
              case JX_ERROR
              with r a b Some Inr t have "els' = els[base + i := e']" unfolding eq by simp
              with te show ?thesis by (simp add: map_tsize_update)
            next
              case JX_SUCCESS
              with r a b Some Inr t
              have "for_elements m (els[base + i := e']) base (Suc i) sz mode mem1 = Inr (st, els', mem')"
                unfolding eq by simp
              with 2(4) [OF a b Some Inr _ JX_SUCCESS, of "(e', mem1)" e' mem1] t JX_SUCCESS
              have "map tsize els' = map tsize (els[base + i := e'])" by simp
              with te show ?thesis by (simp add: map_tsize_update)
            qed
          qed
        qed
      qed
    qed
  qed
next
  case (3 object e mode mem)
  show ?case
  proof (intro allI impI)
    fix st e' mem'
    assume r: "switch_type object e mode mem = Inr (st, e', mem')"
    note eq = switch_type.psimps [OF 3(1)]
    show "tsize e' = tsize e"
    proof (cases "type e = JX_OBJECT")
      case o: True
      show ?thesis
      proof (cases "cJSON_IsObject object")
        case False
        with r o show ?thesis unfolding eq by auto
      next
        case True
        note ih = 3(3) [OF o True]
        from r o True ih show ?thesis unfolding eq
          by (auto simp: tsize_set_element split: sum.splits JX_STATUS.splits)
      qed
    next
      case no: False
      show ?thesis
      proof (cases "type e = JX_ARRAY")
        case ar: True
        show ?thesis
        proof (cases "element e")
          case None
          with r ar show ?thesis unfolding eq by auto
        next
          case (Some ch)
          note ih = 3(2) [OF ar Some]
          from r ar Some ih show ?thesis unfolding eq
            by (auto simp: tsize_set_element split: sum.splits JX_STATUS.splits)
        qed
      next
        case False
        with r no show ?thesis unfolding eq
          by (auto dest: tsize_object_to_leaf split: JX_ELEMENT_TYPE.splits sum.splits)
      qed
    qed
  qed
next
  case (4 object ch j n mode mem)
  show ?case
  proof (intro allI impI)
    fix st ch' mem'
    assume r: "for_items object ch j n mode mem = Inr (st, ch', mem')"
    note eq = for_items.psimps [OF 4(1)]
    show "map tsize ch' = map tsize ch"
    proof (cases "n \<le> j")
      case True
      with r eq show ?thesis by simp
    next
      case a: False
      show ?thesis
      proof (cases "cJSON_GetArrayItem object j")
        case None
        from r a None have "for_items object ch (Suc j) n mode mem = Inr (st, ch', mem')"
          unfolding eq by simp
        with 4(2) [OF a None] show ?thesis by simp
      next
        case (Some item)
        show ?thesis
        proof (cases "length ch \<le> j")
          case True
          with r a Some show ?thesis unfolding eq by simp
        next
          case b: False
          let ?len = "if value_len (ch ! j) = 0 then 1 else unat (value_len (ch ! j))"
          show ?thesis
          proof (cases "jx_object_to_struct (Some item) (Some ch) j ?len mode mem")
            case (Inl f)
            with r a b Some show ?thesis unfolding eq by simp
          next
            case (Inr t)
            obtain s c1 mem1 where t: "t = (s, c1, mem1)" by (cases t) auto
            from 4(3) [OF a Some b] Inr t
            have "map_option (map tsize) c1 = Some (map tsize ch)" by simp
            then have pe: "map tsize (pointee ch c1) = map tsize ch"
              by (cases c1) (simp_all add: pointee_def)
            show ?thesis
            proof (cases s)
              case JX_ERROR
              with r a b Some Inr t have "ch' = pointee ch c1" unfolding eq by simp
              with pe show ?thesis by simp
            next
              case JX_SUCCESS
              with r a b Some Inr t
              have "for_items object ((pointee ch c1)[j := jx_set_updated (pointee ch c1 ! j)])
                      (Suc j) n mode mem1 = Inr (st, ch', mem')"
                unfolding eq by simp
              with 4(4) [OF a Some b Inr _ JX_SUCCESS, of "(c1, mem1)" c1 mem1] t JX_SUCCESS
              have "map tsize ch' = map tsize ((pointee ch c1)[j := jx_set_updated (pointee ch c1 ! j)])"
                by simp
              with pe show ?thesis by (simp add: map_tsize_update)
            qed
          qed
        qed
      qed
    qed
  qed
qed

lemma asize_children: "element e = Some ch \<Longrightarrow> asize ch < tsize e"
  by (cases e) (simp add: asize_def)

lemma tsize_pos: "0 < tsize e"
  by (cases e) simp

lemma tsize_le_asize: "k < length els \<Longrightarrow> tsize (els ! k) \<le> asize els"
  by (simp add: asize_def member_le_sum_list)

lemma asize_update:
  "tsize e' = tsize (els ! k) \<Longrightarrow> asize (els[k := e']) = asize els"
  by (simp add: asize_def map_tsize_update)

definition decode_measure ::
  "((cJSON option \<times> JX_ELEMENT list option \<times> nat \<times> nat \<times> JX_PARSE_MODE \<times> memory)
     + (cJSON \<times> JX_ELEMENT list \<times> nat \<times> nat \<times> nat \<times> JX_PARSE_MODE \<times> memory))
   + ((cJSON \<times> JX_ELEMENT \<times> JX_PARSE_MODE \<times> memory)
     + (cJSON \<times> JX_ELEMENT list \<times> nat \<times> nat \<times> JX_PARSE_MODE \<times> memory))
   \<Rightarrow> nat \<times> nat \<times> nat" where
  "decode_measure x =
     (case x of
        Inl (Inl (main_object, elem, base, sz, mode, mem)) \<Rightarrow>
          ((case elem of None \<Rightarrow> 0 | Some els \<Rightarrow> asize els), 2, 0)
      | Inl (Inr (m, els, base, i, sz, mode, mem)) \<Rightarrow> (asize els, 1, sz - i)
      | Inr (Inl (object, e, mode, mem)) \<Rightarrow> (tsize e, 0, 0)
      | Inr (Inr (object, ch, j, n, mode, mem)) \<Rightarrow> (asize ch, 3, n - j))"

termination jx_object_to_struct
  apply (relation "inv_image (less_than <*lex*> less_than <*lex*> less_than) decode_measure")
           apply (auto simp: decode_measure_def)
  subgoal for m els base i sz x2
    using tsize_le_asize [of "base + i" els] by simp
  subgoal for m els base i sz mode mem x2 aa b
    using shape_preserved(3) [of x2 "els ! (base + i)" mode mem]
    by (simp add: asize_update)
  subgoal for e x2
    by (simp add: asize_children)
  subgoal for object e
    by (cases "element e") (simp_all add: asize_children tsize_pos)
  subgoal premises prems for object ch j n mode mem x2 aa b
  proof -
    from shape_preserved(1) [OF prems(5)] prems(4)
    have "map_option (map tsize) aa = Some (map tsize ch)" by simp
    then have "map tsize (pointee ch aa) = map tsize ch"
      by (cases aa) (simp_all add: pointee_def)
    then have "map tsize ((pointee ch aa)[j := jx_set_updated (pointee ch aa ! j)]) = map tsize ch"
      by (simp add: map_tsize_update)
    then show ?thesis by (simp add: asize_def)
  qed
  done

section \<open>The parser session and the allocation hooks (jx\_types.h, jx\_parser.c)\<close>

text \<open>
  One backend is selected at compile time; \<open>config\<close> names the five builds the preprocessor
  allows (\<open>JX_USE_BAREMETAL\<close> here is the static-buffer build, without
  \<open>JX_USE_HEAP_BAREMETAL\<close>).  A function pointer stored in a hook is one of the functions that
  can be stored there.
\<close>

datatype JX_STATE = JX_RESET | JX_INITIALIZED

datatype JX_FORMAT = JX_MINIFIED | JX_FORMATTED

datatype config =
  JX_USE_THREADX | JX_USE_FREERTOS | JX_USE_HEAP_BAREMETAL | JX_USE_BAREMETAL
  | JX_USE_CUSTOM_ALLOCATOR

datatype malloc_hook = libc_malloc | hook_jx_alloc_memory | hook_jx_static_malloc | user_malloc

datatype free_hook = libc_free | hook_jx_free_memory | hook_jx_static_free | user_free

record JX_HOOKS =
  malloc_fn :: "malloc_hook option"
  free_fn :: "free_hook option"
  reset_fn :: bool

record JX_PARSER =
  state :: JX_STATE
  parser_status :: JX_STATUS
  hooks :: JX_HOOKS
  byte_pool :: ptr
  parser_allocator :: ptr

text \<open>
  The global state of the program: \<^verbatim>\<open>static JX_PARSER *JSON_Parser\<close> (null, or the address and
  the content of the instance), the static \<open>allocator\<close> of jx\_static\_allocator.c, the allocation
  hook the codec currently holds (\<open>cJSON_InitHooks\<close>; the codec starts with the C library's
  \<open>malloc\<close> and returns to it when it is given null hooks), and the allocators outside the
  repository (C heap, RTOS pool, user hooks) as an oracle: the pointers their next calls return,
  \<open>NULL\<close> once the list is used up.
\<close>

record world =
  JSON_Parser :: "(ptr \<times> JX_PARSER) option"
  allocator :: "jx_static_allocator_t option"
  cJSON_hooks :: malloc_hook
  ext :: "ptr list"

text \<open>\<open>sizeof(JX_PARSER)\<close> and \<open>sizeof(cJSON)\<close> on the 32-bit target.\<close>

definition sizeof_JX_PARSER :: size_t where
  "sizeof_JX_PARSER = 24"

definition sizeof_cJSON :: size_t where
  "sizeof_cJSON = 40"

definition ext_malloc :: "world \<Rightarrow> ptr \<times> world" where
  "ext_malloc w = (case ext w of [] \<Rightarrow> (NULL, w) | p # ps \<Rightarrow> (p, w\<lparr>ext := ps\<rparr>))"

definition jx_alloc_memory :: "config \<Rightarrow> world \<Rightarrow> size_t \<Rightarrow> fault + (ptr \<times> world)" where
  "jx_alloc_memory cfg w memory_size =
     (case cfg of
        JX_USE_THREADX \<Rightarrow>
          (case JSON_Parser w of None \<Rightarrow> Inl NullDereference | Some s \<Rightarrow> Inr (ext_malloc w))
      | JX_USE_FREERTOS \<Rightarrow> Inr (ext_malloc w)
      | JX_USE_HEAP_BAREMETAL \<Rightarrow> Inr (ext_malloc w)
      | JX_USE_BAREMETAL \<Rightarrow>
          (case jx_static_malloc (allocator w) (ALIGN_4 memory_size) of
             (p, a) \<Rightarrow> Inr (p, w\<lparr>allocator := a\<rparr>))
      | JX_USE_CUSTOM_ALLOCATOR \<Rightarrow>
          (case JSON_Parser w of
             None \<Rightarrow> Inr (NULL, w)
           | Some s \<Rightarrow>
               (case malloc_fn (hooks (snd s)) of
                  None \<Rightarrow> Inr (NULL, w)
                | Some f \<Rightarrow> Inr (ext_malloc w))))"

definition cJSON_malloc :: "config \<Rightarrow> world \<Rightarrow> size_t \<Rightarrow> fault + (ptr \<times> world)" where
  "cJSON_malloc cfg w n =
     (case cJSON_hooks w of
        libc_malloc \<Rightarrow> Inr (ext_malloc w)
      | user_malloc \<Rightarrow> Inr (ext_malloc w)
      | hook_jx_alloc_memory \<Rightarrow> jx_alloc_memory cfg w n
      | hook_jx_static_malloc \<Rightarrow>
          (case jx_static_malloc (allocator w) n of (p, a) \<Rightarrow> Inr (p, w\<lparr>allocator := a\<rparr>)))"

text \<open>
  Modelled from the spec: the codec's constructors are not under src/.  Each allocates through
  the codec's hook and returns null when the allocation fails: one block of \<open>sizeof(cJSON)\<close> for
  a node, one of \<open>strlen + 1\<close> bytes for the copy of a string or of a member name.  A container is
  modelled by the sequence of attachments made to it: attaching a node appends it (under the
  given name, for an object).
\<close>

definition cJSON_New_Item :: "config \<Rightarrow> world \<Rightarrow> cJSON \<Rightarrow> fault + (cJSON option \<times> world)" where
  "cJSON_New_Item cfg w item =
     (case cJSON_malloc cfg w sizeof_cJSON of
        Inl f \<Rightarrow> Inl f
      | Inr (p, w') \<Rightarrow> Inr (if p = NULL then None else Some item, w'))"

definition cJSON_CreateObject :: "config \<Rightarrow> world \<Rightarrow> fault + (cJSON option \<times> world)" where
  "cJSON_CreateObject cfg w = cJSON_New_Item cfg w (cJSON_Object [])"

definition cJSON_CreateArray :: "config \<Rightarrow> world \<Rightarrow> fault + (cJSON option \<times> world)" where
  "cJSON_CreateArray cfg w = cJSON_New_Item cfg w (cJSON_Array [])"

definition cJSON_CreateBool :: "config \<Rightarrow> world \<Rightarrow> bool \<Rightarrow> fault + (cJSON option \<times> world)" where
  "cJSON_CreateBool cfg w b = cJSON_New_Item cfg w (if b then cJSON_True else cJSON_False)"

definition cJSON_CreateNumber :: "config \<Rightarrow> world \<Rightarrow> double \<Rightarrow> fault + (cJSON option \<times> world)" where
  "cJSON_CreateNumber cfg w d = cJSON_New_Item cfg w (cJSON_Number d)"

definition cJSON_strdup :: "config \<Rightarrow> world \<Rightarrow> string \<Rightarrow> fault + (bool \<times> world)" where
  "cJSON_strdup cfg w s =
     (case cJSON_malloc cfg w (of_nat (strlen s + 1)) of
        Inl f \<Rightarrow> Inl f
      | Inr (p, w') \<Rightarrow> Inr (p \<noteq> NULL, w'))"

definition cJSON_CreateString ::
  "config \<Rightarrow> world \<Rightarrow> memory \<Rightarrow> pointer option \<Rightarrow> fault + (cJSON option \<times> world)" where
  "cJSON_CreateString cfg w mem p =
     (case cJSON_malloc cfg w sizeof_cJSON of
        Inl f \<Rightarrow> Inl f
      | Inr (q, w1) \<Rightarrow>
          if q = NULL then Inr (None, w1)
          else
            (case p of
               None \<Rightarrow> Inr (None, w1)
             | Some a \<Rightarrow>
                 (case mem_read_string mem p of
                    Inl f \<Rightarrow> Inl f
                  | Inr s \<Rightarrow>
                      (case cJSON_strdup cfg w1 s of
                         Inl f \<Rightarrow> Inl f
                       | Inr (ok, w2) \<Rightarrow> Inr (if ok then Some (cJSON_String s) else None, w2)))))"

definition cJSON_AddItemToArray :: "cJSON \<Rightarrow> cJSON \<Rightarrow> bool \<times> cJSON" where
  "cJSON_AddItemToArray array item =
     (case array of
        cJSON_Array xs \<Rightarrow> (True, cJSON_Array (xs @ [item]))
      | cJSON_Object ms \<Rightarrow> (True, cJSON_Object (ms @ [([], item)]))
      | _ \<Rightarrow> (False, array))"

definition cJSON_AddItemToObject ::
  "config \<Rightarrow> world \<Rightarrow> cJSON \<Rightarrow> string \<Rightarrow> cJSON \<Rightarrow> fault + (bool \<times> cJSON \<times> world)" where
  "cJSON_AddItemToObject cfg w object name item =
     (case cJSON_strdup cfg w name of
        Inl f \<Rightarrow> Inl f
      | Inr (ok, w') \<Rightarrow>
          if ok then
            (case object of
               cJSON_Object ms \<Rightarrow> Inr (True, cJSON_Object (ms @ [(name, item)]), w')
             | cJSON_Array xs \<Rightarrow> Inr (True, cJSON_Array (xs @ [item]), w')
             | _ \<Rightarrow> Inr (False, object, w'))
          else Inr (False, object, w'))"

section \<open>The encoder: \_jx\_struct\_to\_object (jx\_parser.c)\<close>

text \<open>
  \<^verbatim>\<open>_jx_struct_to_object(object, element, size)\<close>: the entry test, the loop from index \<open>i\<close>
  and the \<open>switch\<close> that sets the local variable \<open>node\<close>.  \<open>node\<close> is declared before the loop
  and is passed from one iteration to the next, as in the source.  The encoder reads the elements
  and never writes them, so it returns only the status, the container and the global state.
\<close>

function jx_struct_to_object ::
    "config \<Rightarrow> memory \<Rightarrow> cJSON option \<Rightarrow> JX_ELEMENT list option \<Rightarrow> nat \<Rightarrow> world
      \<Rightarrow> fault + (JX_STATUS \<times> cJSON option \<times> world)"
  and struct_for_elements ::
    "config \<Rightarrow> memory \<Rightarrow> cJSON \<Rightarrow> JX_ELEMENT list option \<Rightarrow> nat \<Rightarrow> nat \<Rightarrow> cJSON option \<Rightarrow> world
      \<Rightarrow> fault + (JX_STATUS \<times> cJSON \<times> world)"
  and struct_switch_type ::
    "config \<Rightarrow> memory \<Rightarrow> JX_ELEMENT \<Rightarrow> cJSON option \<Rightarrow> world
      \<Rightarrow> fault + (JX_STATUS \<times> cJSON option \<times> world)"
where
  "jx_struct_to_object cfg mem object elem sz w =
     (case object of
        None \<Rightarrow> Inr (JX_ERROR, None, w)
      | Some obj \<Rightarrow>
          if sz = 0 then Inr (JX_ERROR, object, w)
          else
            (case struct_for_elements cfg mem obj elem 0 sz None w of
               Inl f \<Rightarrow> Inl f
             | Inr (st, obj', w') \<Rightarrow> Inr (st, Some obj', w')))"
| "struct_for_elements cfg mem obj elem i sz node w =
     (if sz \<le> i then Inr (JX_SUCCESS, obj, w)
      else
        (case elem of
           None \<Rightarrow> Inl NullDereference
         | Some els \<Rightarrow>
             if length els \<le> i then Inl OutOfBounds
             else
               (case struct_switch_type cfg mem (els ! i) node w of
                  Inl f \<Rightarrow> Inl f
                | Inr (JX_ERROR, node', w') \<Rightarrow> Inr (JX_ERROR, obj, w')
                | Inr (JX_SUCCESS, None, w') \<Rightarrow>
                    struct_for_elements cfg mem obj elem (Suc i) sz None w'
                | Inr (JX_SUCCESS, Some nd, w') \<Rightarrow>
                    (if cJSON_IsArray obj
                     then struct_for_elements cfg mem (snd (cJSON_AddItemToArray obj nd)) elem
                            (Suc i) sz (Some nd) w'
                     else
                       (case cJSON_AddItemToObject cfg w' obj (property (els ! i)) nd of
                          Inl f \<Rightarrow> Inl f
                        | Inr (added, obj', w'') \<Rightarrow>
                            struct_for_elements cfg mem obj' elem (Suc i) sz (Some nd) w'')))))"
| "struct_switch_type cfg mem e node w =
     (case type e of
        JX_STRING \<Rightarrow>
          (case cJSON_CreateString cfg w mem (value_p e) of
             Inl f \<Rightarrow> Inl f
           | Inr (node', w') \<Rightarrow> Inr (JX_SUCCESS, node', w'))
      | JX_BOOLEAN \<Rightarrow>
          (case mem_read mem (value_p e) 1 of
             Inl f \<Rightarrow> Inl f
           | Inr bs \<Rightarrow>
               (case cJSON_CreateBool cfg w (bs \<noteq> [NUL]) of
                  Inl f \<Rightarrow> Inl f
                | Inr (node', w') \<Rightarrow> Inr (JX_SUCCESS, node', w')))
      | JX_NUMBER \<Rightarrow>
          (case mem_read mem (value_p e) 8 of
             Inl f \<Rightarrow> Inl f
           | Inr bs \<Rightarrow>
               (case cJSON_CreateNumber cfg w (bytes_double bs) of
                  Inl f \<Rightarrow> Inl f
                | Inr (node', w') \<Rightarrow> Inr (JX_SUCCESS, node', w')))
      | JX_OBJECT \<Rightarrow>
          (case cJSON_CreateObject cfg w of
             Inl f \<Rightarrow> Inl f
           | Inr (node', w') \<Rightarrow>
               jx_struct_to_object cfg mem node' (element e) (unat (value_len e)) w')
      | JX_ARRAY \<Rightarrow>
          (case cJSON_CreateArray cfg w of
             Inl f \<Rightarrow> Inl f
           | Inr (node', w') \<Rightarrow>
               jx_struct_to_object cfg mem node' (element e) (unat (value_len e)) w')
      | _ \<Rightarrow> Inr (JX_SUCCESS, node, w))"
  by pat_completeness auto

definition encode_measure ::
  "(config \<times> memory \<times> cJSON option \<times> JX_ELEMENT list option \<times> nat \<times> world)
   + (config \<times> memory \<times> cJSON \<times> JX_ELEMENT list option \<times> nat \<times> nat \<times> cJSON option \<times> world)
   + (config \<times> memory \<times> JX_ELEMENT \<times> cJSON option \<times> world)
   \<Rightarrow> nat \<times> nat \<times> nat" where
  "encode_measure x =
     (case x of
        Inl (cfg, mem, object, elem, sz, w) \<Rightarrow>
          ((case elem of None \<Rightarrow> 0 | Some els \<Rightarrow> asize els), 2, 0)
      | Inr (Inl (cfg, mem, obj, elem, i, sz, node, w)) \<Rightarrow>
          ((case elem of None \<Rightarrow> 0 | Some els \<Rightarrow> asize els), 1, sz - i)
      | Inr (Inr (cfg, mem, e, node, w)) \<Rightarrow> (tsize e, 0, 0))"

lemma children_lt_tsize: "(case element e of None \<Rightarrow> 0 | Some x \<Rightarrow> asize x) < tsize e"
  by (cases "element e") (simp_all add: asize_children tsize_pos)

termination jx_struct_to_object
  apply (relation "inv_image (less_than <*lex*> less_than <*lex*> less_than) encode_measure")
           apply (auto simp: encode_measure_def children_lt_tsize)
  subgoal for i sz x2
    using tsize_le_asize [of i x2] by simp
  done

section \<open>Initialisation, deinitialisation and the two top-level operations (jx\_parser.c)\<close>

text \<open>
  The four \<open>jx_init\<close> of the source, one per backend, and \<open>jx_parser_deinit\<close>.  \<open>memset\<close> and the
  release of the control block leave no trace in the state and are not written out.
\<close>

definition initial_world :: "ptr list \<Rightarrow> world" where
  "initial_world oracle =
     \<lparr>JSON_Parser = None, allocator = None, cJSON_hooks = libc_malloc, ext = oracle\<rparr>"

definition zeroed_parser :: JX_PARSER where
  "zeroed_parser =
     \<lparr>state = JX_RESET, parser_status = JX_SUCCESS,
      hooks = \<lparr>malloc_fn = None, free_fn = None, reset_fn = False\<rparr>,
      byte_pool = NULL, parser_allocator = NULL\<rparr>"

definition jx_init_threadx :: "world \<Rightarrow> ptr \<Rightarrow> JX_STATUS \<times> world" where
  "jx_init_threadx w pool =
     (if pool = NULL \<or> JSON_Parser w \<noteq> None then (JX_ERROR, w)
      else
        (case ext_malloc w of
           (p, w1) \<Rightarrow>
             if p = NULL then (JX_ERROR, w1)
             else (JX_SUCCESS,
                   w1\<lparr>JSON_Parser := Some (p, zeroed_parser
                          \<lparr>byte_pool := pool,
                           hooks := \<lparr>malloc_fn = Some hook_jx_alloc_memory,
                                     free_fn = Some hook_jx_free_memory, reset_fn = False\<rparr>,
                           state := JX_INITIALIZED\<rparr>),
                       cJSON_hooks := hook_jx_alloc_memory\<rparr>)))"

definition jx_init_heap :: "config \<Rightarrow> world \<Rightarrow> fault + (JX_STATUS \<times> world)" where
  "jx_init_heap cfg w =
     (if JSON_Parser w \<noteq> None then Inr (JX_ERROR, w)
      else
        (case jx_alloc_memory cfg w sizeof_JX_PARSER of
           Inl f \<Rightarrow> Inl f
         | Inr (p, w1) \<Rightarrow>
             if p = NULL then Inr (JX_ERROR, w1)
             else Inr (JX_SUCCESS,
                   w1\<lparr>JSON_Parser := Some (p, zeroed_parser
                          \<lparr>hooks := \<lparr>malloc_fn = Some hook_jx_alloc_memory,
                                     free_fn = Some hook_jx_free_memory, reset_fn = False\<rparr>,
                           state := JX_INITIALIZED\<rparr>),
                       cJSON_hooks := hook_jx_alloc_memory\<rparr>)))"

definition jx_init_static :: "world \<Rightarrow> ptr \<Rightarrow> size_t \<Rightarrow> JX_STATUS \<times> world" where
  "jx_init_static w buffer sz =
     (if buffer = NULL \<or> sz < ALIGN_4 sizeof_JX_PARSER then (JX_ERROR, w)
      else
        (case jx_static_allocator_init (allocator w) (buffer + ALIGN_4 sizeof_JX_PARSER)
                (sz - ALIGN_4 sizeof_JX_PARSER) of
           (a, al) \<Rightarrow>
             if a = NULL
             then (JX_ERROR, w\<lparr>JSON_Parser := Some (buffer, zeroed_parser), allocator := al\<rparr>)
             else (JX_SUCCESS,
                   w\<lparr>JSON_Parser := Some (buffer, zeroed_parser
                          \<lparr>parser_allocator := a,
                           hooks := \<lparr>malloc_fn = Some hook_jx_static_malloc,
                                     free_fn = Some hook_jx_static_free, reset_fn = True\<rparr>,
                           state := JX_INITIALIZED\<rparr>),
                      allocator := al,
                      cJSON_hooks := hook_jx_static_malloc\<rparr>)))"

definition jx_init_custom :: "world \<Rightarrow> JX_HOOKS option \<Rightarrow> JX_STATUS \<times> world" where
  "jx_init_custom w user_hooks =
     (case user_hooks of
        None \<Rightarrow> (JX_ERROR, w)
      | Some h \<Rightarrow>
          (case malloc_fn h of
             None \<Rightarrow> (JX_ERROR, w)
           | Some m \<Rightarrow>
               if free_fn h = None \<or> JSON_Parser w \<noteq> None then (JX_ERROR, w)
               else
                 (case ext_malloc w of
                    (p, w1) \<Rightarrow>
                      if p = NULL then (JX_ERROR, w1)
                      else (JX_SUCCESS,
                            w1\<lparr>JSON_Parser := Some (p, zeroed_parser
                                   \<lparr>hooks := \<lparr>malloc_fn = malloc_fn h, free_fn = free_fn h,
                                              reset_fn = False\<rparr>,
                                    state := JX_INITIALIZED\<rparr>),
                                cJSON_hooks := m\<rparr>))))"

definition jx_parser_deinit :: "world \<Rightarrow> world" where
  "jx_parser_deinit w =
     (case JSON_Parser w of
        None \<Rightarrow> w
      | Some s \<Rightarrow> w\<lparr>JSON_Parser := None, cJSON_hooks := libc_malloc\<rparr>)"

text \<open>
  Modelled from the spec: the tokenizer of the codec is not under src/.  The spec has it parse the
  text into a value tree that is built through the allocation hooks, an allocation failure
  surfacing as a failed decode.  The syntax is a parameter, \<open>tokenizer buffer\<close>: \<open>Parsed t\<close> when the
  text is the JSON text of the tree \<open>t\<close>, \<open>Malformed t\<close> when it is not JSON and \<open>t\<close> is what the
  tokenizer has built when it finds the error.  \<open>cJSON_Parse\<close> requests the memory of the tree in
  the order cJSON does: the root node; for each item of an array its node, then its content; for
  each member of an object its node, the copy of its name, then its content; for a string the
  copy of the string (\<open>strlen + 1\<close> bytes, for a text without escape sequences).  It returns null
  as soon as a request fails, and after the requests of a malformed text.  The release of the
  tree (\<open>cJSON_Delete\<close>) leaves no trace in the state.
\<close>

datatype parsed = Parsed cJSON | Malformed cJSON

fun content_requests :: "cJSON \<Rightarrow> size_t list" where
  "content_requests (cJSON_String s) = [of_nat (strlen s + 1)]"
| "content_requests (cJSON_Array xs) = concat (map (\<lambda>x. sizeof_cJSON # content_requests x) xs)"
| "content_requests (cJSON_Object ms) =
     concat (map (\<lambda>m. sizeof_cJSON # of_nat (strlen (fst m) + 1) # content_requests (snd m)) ms)"
| "content_requests _ = []"

fun allocate_all :: "config \<Rightarrow> world \<Rightarrow> size_t list \<Rightarrow> fault + (bool \<times> world)" where
  "allocate_all cfg w [] = Inr (True, w)"
| "allocate_all cfg w (n # ns) =
     (case cJSON_malloc cfg w n of
        Inl f \<Rightarrow> Inl f
      | Inr (p, w') \<Rightarrow> if p = NULL then Inr (False, w') else allocate_all cfg w' ns)"

definition cJSON_Parse ::
  "config \<Rightarrow> (string \<Rightarrow> parsed) \<Rightarrow> world \<Rightarrow> string \<Rightarrow> fault + (cJSON option \<times> world)" where
  "cJSON_Parse cfg tokenizer w buffer =
     (case tokenizer buffer of
        Parsed t \<Rightarrow>
          (case allocate_all cfg w (sizeof_cJSON # content_requests t) of
             Inl f \<Rightarrow> Inl f
           | Inr (ok, w') \<Rightarrow> Inr (if ok then Some t else None, w'))
      | Malformed t \<Rightarrow>
          (case allocate_all cfg w (sizeof_cJSON # content_requests t) of
             Inl f \<Rightarrow> Inl f
           | Inr (ok, w') \<Rightarrow> Inr (None, w')))"

text \<open>
  Both top-level operations start with \<^verbatim>\<open>jx_static_reset()\<close> in the static build
  (\<open>begin_operation\<close>).  The printer of the codec is a parameter:
  \<open>cJSON_PrintPreallocated object buffer_size formatted\<close> is the text, or \<open>None\<close> when it does not
  fit; it writes into the caller's buffer and allocates nothing.
\<close>

definition begin_operation :: "config \<Rightarrow> world \<Rightarrow> world" where
  "begin_operation cfg w =
     (if cfg = JX_USE_BAREMETAL then w\<lparr>allocator := jx_static_reset (allocator w)\<rparr> else w)"

definition jx_struct_to_json ::
  "config \<Rightarrow> (cJSON \<Rightarrow> nat \<Rightarrow> bool \<Rightarrow> string option) \<Rightarrow> world \<Rightarrow> memory
    \<Rightarrow> JX_ELEMENT list option \<Rightarrow> nat \<Rightarrow> nat \<Rightarrow> JX_FORMAT
    \<Rightarrow> fault + (JX_STATUS \<times> string option \<times> world)" where
  "jx_struct_to_json cfg cJSON_PrintPreallocated w mem elem elem_size buffer_size format =
     (case cJSON_CreateObject cfg (begin_operation cfg w) of
        Inl f \<Rightarrow> Inl f
      | Inr (None, w1) \<Rightarrow> Inr (JX_ERROR, None, w1)
      | Inr (Some object, w1) \<Rightarrow>
          (case jx_struct_to_object cfg mem (Some object) elem elem_size w1 of
             Inl f \<Rightarrow> Inl f
           | Inr (JX_ERROR, object', w2) \<Rightarrow> Inr (JX_ERROR, None, w2)
           | Inr (JX_SUCCESS, None, w2) \<Rightarrow> Inr (JX_ERROR, None, w2)
           | Inr (JX_SUCCESS, Some object', w2) \<Rightarrow>
               (case cJSON_PrintPreallocated object' buffer_size (format \<noteq> JX_MINIFIED) of
                  None \<Rightarrow> Inr (JX_ERROR, None, w2)
                | Some text \<Rightarrow> Inr (JX_SUCCESS, Some text, w2))))"

definition jx_json_to_struct ::
  "config \<Rightarrow> (string \<Rightarrow> parsed) \<Rightarrow> world \<Rightarrow> string
    \<Rightarrow> JX_ELEMENT list option \<Rightarrow> nat \<Rightarrow> JX_PARSE_MODE \<Rightarrow> memory
    \<Rightarrow> fault + (JX_STATUS \<times> JX_ELEMENT list option \<times> memory \<times> world)" where
  "jx_json_to_struct cfg tokenizer w buffer elem elem_size mode mem =
     (case cJSON_Parse cfg tokenizer (begin_operation cfg w) buffer of
        Inl f \<Rightarrow> Inl f
      | Inr (None, w1) \<Rightarrow> Inr (JX_ERROR, elem, mem, w1)
      | Inr (Some object, w1) \<Rightarrow>
          (case jx_object_to_struct (Some object) elem 0 elem_size mode mem of
             Inl f \<Rightarrow> Inl f
           | Inr (st, elem', mem') \<Rightarrow> Inr (st, elem', mem', w1)))"

section \<open>Example data\<close>

text \<open>
  The element tree and the data of example.c: \<^verbatim>\<open>struct { char name[32]; double coords[2]; }
  test_struct\<close> is one object of 48 bytes, \<open>name\<close> at offset 0 and the two coordinates at offsets
  32 and 40, holding \<open>"Adam"\<close>, 12 and 34.  \<open>twelve\<close> and \<open>thirty_four\<close> are the little-endian
  IEEE-754 representations of 12.0 and 34.0.  \<open>example_world\<close> is the state after
  \<open>jx_init(&jx_byte_pool)\<close> in the ThreadX build that jx\_config.h selects.  \<open>example_print\<close> and
  \<open>example_parse\<close> are the codec on the one document the example exchanges.
\<close>

definition twelve :: double where
  "twelve = Double NUL NUL NUL NUL NUL NUL (CHR 0x28) (CHR 0x40)"

definition thirty_four :: double where
  "thirty_four = Double NUL NUL NUL NUL NUL NUL (CHR 0x41) (CHR 0x40)"

definition test_struct :: string where
  "test_struct = ''Adam'' @ replicate 28 NUL @ double_bytes twelve @ double_bytes thirty_four"

definition user_object :: "JX_ELEMENT list" where
  "user_object =
     [JX_ELEMENT ''name'' JX_STRING 0 (Some (Pointer 0 0)) JX_ELEMENT_NOT_UPDATED None 0,
      JX_ELEMENT ''position'' JX_ARRAY 2 None JX_ELEMENT_NOT_UPDATED
        (Some [JX_ELEMENT [] JX_NUMBER 0 (Some (Pointer 0 32)) JX_ELEMENT_NOT_UPDATED None 0,
               JX_ELEMENT [] JX_NUMBER 0 (Some (Pointer 0 40)) JX_ELEMENT_NOT_UPDATED None 0]) 0]"

definition example_tree :: cJSON where
  "example_tree =
     cJSON_Object [(''name'', cJSON_String ''Adam''),
                   (''position'', cJSON_Array [cJSON_Number twelve, cJSON_Number thirty_four])]"

definition example_text :: string where
  "example_text = ''{\"name\":\"Adam\",\"position\":[12,34]}''"

definition example_print :: "cJSON \<Rightarrow> nat \<Rightarrow> bool \<Rightarrow> string option" where
  "example_print object buffer_size formatted =
     (if object = example_tree \<and> length example_text < buffer_size then Some example_text else None)"

definition example_parse :: "string \<Rightarrow> parsed" where
  "example_parse buffer = (if buffer = example_text then Parsed example_tree else Malformed cJSON_NULL)"

definition example_world :: world where
  "example_world = snd (jx_init_threadx (initial_world (replicate 9 0x20001000)) 0x20000400)"

text \<open>
  A variant of the example with the same 32-byte name and three coordinates, the array element
  declared before the name: an object of 56 bytes.  \<open>wide_decoded\<close> is the tree with every
  element marked Updated.
\<close>

definition wide_struct :: string where
  "wide_struct = ''Adam'' @ replicate 28 NUL @ double_bytes twelve @ double_bytes thirty_four
                   @ double_bytes twelve"

definition wide_object :: "JX_ELEMENT list" where
  "wide_object =
     [JX_ELEMENT ''position'' JX_ARRAY 3 None JX_ELEMENT_NOT_UPDATED
        (Some [JX_ELEMENT [] JX_NUMBER 0 (Some (Pointer 0 32)) JX_ELEMENT_NOT_UPDATED None 0,
               JX_ELEMENT [] JX_NUMBER 0 (Some (Pointer 0 40)) JX_ELEMENT_NOT_UPDATED None 0,
               JX_ELEMENT [] JX_NUMBER 0 (Some (Pointer 0 48)) JX_ELEMENT_NOT_UPDATED None 0]) 0,
      JX_ELEMENT ''name'' JX_STRING 0 (Some (Pointer 0 0)) JX_ELEMENT_NOT_UPDATED None 0]"

definition wide_decoded :: "JX_ELEMENT list" where
  "wide_decoded =
     [JX_ELEMENT ''position'' JX_ARRAY 3 None JX_ELEMENT_UPDATED
        (Some [JX_ELEMENT [] JX_NUMBER 0 (Some (Pointer 0 32)) JX_ELEMENT_UPDATED None 0,
               JX_ELEMENT [] JX_NUMBER 0 (Some (Pointer 0 40)) JX_ELEMENT_UPDATED None 0,
               JX_ELEMENT [] JX_NUMBER 0 (Some (Pointer 0 48)) JX_ELEMENT_UPDATED None 0]) 0,
      JX_ELEMENT ''name'' JX_STRING 0 (Some (Pointer 0 0)) JX_ELEMENT_UPDATED None 0]"

definition wide_tree :: cJSON where
  "wide_tree =
     cJSON_Object [(''position'', cJSON_Array [cJSON_Number twelve, cJSON_Number thirty_four,
                                               cJSON_Number twelve]),
                   (''name'', cJSON_String ''Adam'')]"

definition wide_text :: string where
  "wide_text = ''{\"position\":[12,34,12],\"name\":\"Adam\"}''"

definition wide_print :: "cJSON \<Rightarrow> nat \<Rightarrow> bool \<Rightarrow> string option" where
  "wide_print object buffer_size formatted =
     (if object = wide_tree \<and> length wide_text < buffer_size then Some wide_text else None)"

definition wide_parse :: "string \<Rightarrow> parsed" where
  "wide_parse buffer = (if buffer = wide_text then Parsed wide_tree else Malformed cJSON_NULL)"

text \<open>Smaller trees: an array of two flags, two named flags, a flag and a Null element.\<close>

definition flag_pair :: "JX_ELEMENT list" where
  "flag_pair =
     [JX_ELEMENT [] JX_BOOLEAN 0 (Some (Pointer 0 0)) JX_ELEMENT_NOT_UPDATED None 0,
      JX_ELEMENT [] JX_BOOLEAN 0 (Some (Pointer 0 1)) JX_ELEMENT_NOT_UPDATED None 0]"

definition flags_object :: "JX_ELEMENT list" where
  "flags_object = [JX_ELEMENT ''flags'' JX_ARRAY 2 None JX_ELEMENT_NOT_UPDATED (Some flag_pair) 0]"


definition flag_then_null :: "JX_ELEMENT list" where
  "flag_then_null =
     [JX_ELEMENT ''flag'' JX_BOOLEAN 0 (Some (Pointer 0 0)) JX_ELEMENT_NOT_UPDATED None 0,
      JX_ELEMENT ''nothing'' JX_NULL 0 (Some (Pointer 1 0)) JX_ELEMENT_NOT_UPDATED None 0]"


definition name_element :: JX_ELEMENT where
  "name_element = JX_ELEMENT ''name'' JX_STRING 0 (Some (Pointer 0 0)) JX_ELEMENT_NOT_UPDATED None 0"

text \<open>
  One named flag with its text and a codec that knows it; the state of the static build after
  \<open>jx_init\<close>, one encode and \<open>jx_parser_deinit\<close>.
\<close>

definition one_flag :: "JX_ELEMENT list" where
  "one_flag = [JX_ELEMENT ''flag'' JX_BOOLEAN 0 (Some (Pointer 0 0)) JX_ELEMENT_NOT_UPDATED None 0]"

definition flag_tree :: cJSON where
  "flag_tree = cJSON_Object [(''flag'', cJSON_True)]"

definition flag_text :: string where
  "flag_text = ''{\"flag\":true}''"

definition flag_print :: "cJSON \<Rightarrow> nat \<Rightarrow> bool \<Rightarrow> string option" where
  "flag_print object buffer_size formatted =
     (if object = flag_tree \<and> length flag_text < buffer_size then Some flag_text else None)"

definition flag_parse :: "string \<Rightarrow> parsed" where
  "flag_parse buffer = (if buffer = flag_text then Parsed flag_tree else Malformed cJSON_NULL)"

definition static_session :: world where
  "static_session = snd (jx_init_static (initial_world [0x1000, 0x1030, 0x1060]) 0x20000000 1024)"

definition after_deinit :: world where
  "after_deinit =
     \<lparr>JSON_Parser = None,
      allocator = Some \<lparr>pool_start = 0x20000024, pool_size = 988, pool_offset = 88\<rparr>,
      cJSON_hooks = libc_malloc, ext = [0x1000, 0x1030, 0x1060]\<rparr>"








text \<open>
  The recursive equations are unfolded by hand (\<open>subst\<close>) in the proofs below; as rewrite rules
  they would unfold without end.
\<close>

declare jx_object_to_struct.simps [simp del] for_elements.simps [simp del]
  switch_type.simps [simp del] for_items.simps [simp del]
  jx_struct_to_object.simps [simp del] struct_for_elements.simps [simp del]
  struct_switch_type.simps [simp del]

section \<open>Notions used in the statements\<close>




text \<open>
  \<open>external_hook cfg w\<close>: in the state \<open>w\<close> of the build \<open>cfg\<close> the codec's allocation hook
  reaches an allocator outside the repository.  The hook is the C library's \<open>malloc\<close> (the
  codec's default, before \<open>jx_init\<close> and after \<open>jx_parser_deinit\<close>) or the user's; or it is
  \<open>jx_alloc_memory\<close> in a build where that function forwards to the RTOS pool, to the heap or to
  the user's hook (the ThreadX build dereferences \<open>JSON_Parser\<close> first, the custom build tests
  it and the hook it holds).  The sessions of the static build, whose hook is
  \<open>jx_static_malloc\<close>, are not among these states.  \<open>in_world w p\<close> is the state \<open>w\<close> with the
  allocator answers left in \<open>p\<close>.  \<open>same_run cfg w r r'\<close>: the result \<open>r\<close> of a run from \<open>w\<close> and
  the result \<open>r'\<close> of the same run from the state before any \<open>jx_init\<close> are the same fault, or
  the same values with final states that differ only as the initial ones did.
\<close>

definition external_hook :: "config \<Rightarrow> world \<Rightarrow> bool" where
  "external_hook cfg w =
     (case cJSON_hooks w of
        libc_malloc \<Rightarrow> True
      | user_malloc \<Rightarrow> True
      | hook_jx_static_malloc \<Rightarrow> False
      | hook_jx_alloc_memory \<Rightarrow>
          (case cfg of
             JX_USE_THREADX \<Rightarrow> JSON_Parser w \<noteq> None
           | JX_USE_FREERTOS \<Rightarrow> True
           | JX_USE_HEAP_BAREMETAL \<Rightarrow> True
           | JX_USE_BAREMETAL \<Rightarrow> False
           | JX_USE_CUSTOM_ALLOCATOR \<Rightarrow>
               (case JSON_Parser w of
                  None \<Rightarrow> False
                | Some s \<Rightarrow> malloc_fn (hooks (snd s)) \<noteq> None)))"

definition in_world :: "world \<Rightarrow> world \<Rightarrow> world" where
  "in_world w p = w\<lparr>ext := ext p\<rparr>"

definition same_run ::
  "config \<Rightarrow> world \<Rightarrow> fault + ('a \<times> 'b \<times> world) \<Rightarrow> fault + ('a \<times> 'b \<times> world) \<Rightarrow> bool" where
  "same_run cfg w r r' =
     (case r of
        Inl f \<Rightarrow> r' = Inl f
      | Inr (st, x, w') \<Rightarrow>
          r' = Inr (st, x, initial_world (ext w')) \<and> external_hook cfg w' \<and> in_world w' = in_world w)"

section \<open>Properties of the static allocator\<close>

lemma ALIGN_4_examples:
  "ALIGN_4 1 = 4" "ALIGN_4 8 = 8" "ALIGN_4 0xFFFFFFFA = 0xFFFFFFFC" "ALIGN_4 0xFFFFFFFD = 0"
  by (simp_all add: ALIGN_4_def)

text \<open>
  Without wrap-around the allocator does what its comments say: \<open>ALIGN_4\<close> rounds up to the next
  multiple of 4, a request that does not fit in the rest of the pool returns \<open>NULL\<close> and leaves
  the allocator as it is, any other request returns the block at the current offset and advances
  the offset by the rounded size, to at most \<open>pool_size\<close>.  \<open>jx_static_free\<close> changes nothing.
\<close>

lemma and_not_3: "(y :: 32 word) AND NOT 3 = push_bit 2 (drop_bit 2 y)"
proof -
  have m: "(3::32 word) = mask 2" by (simp add: mask_eq_exp_minus_1)
  have s: "\<And>n::nat. 2 \<le> n \<Longrightarrow> Suc (Suc (n - 2)) = n" by simp
  show ?thesis
    unfolding m
    by (rule bit_eqI) (auto simp: bit_simps s)
qed

lemma unat_push_drop_2: "unat (push_bit 2 (drop_bit 2 (y::32 word))) = 4 * (unat y div 4)"
proof -
  have "unat (drop_bit 2 y) = unat y div 4"
    by (simp add: unat_drop_bit_eq) (simp add: drop_bit_eq_div)
  moreover have "unat y div 4 * 4 < 2 ^ 32"
    using unsigned_less [of y, where 'a = nat] by simp
  ultimately show ?thesis
    by (simp add: push_bit_eq_mult unat_word_ariths take_bit_eq_mod)
qed

lemma ALIGN_4_unat:
  assumes "unat x + 3 < 2 ^ 32"
  shows "unat (ALIGN_4 x) = 4 * ((unat x + 3) div 4)"
proof -
  have "unat (x + 3) = unat x + 3"
    using assms by (simp add: unat_word_ariths)
  then show ?thesis
    unfolding ALIGN_4_def and_not_3 by (simp only: unat_push_drop_2)
qed

lemma ALIGN_4_bounds:
  assumes "unat x + 3 < 2 ^ 32"
  shows "unat x \<le> unat (ALIGN_4 x)" and "unat (ALIGN_4 x) \<le> unat x + 3"
    and "4 dvd unat (ALIGN_4 x)"
  using ALIGN_4_unat [OF assms] by simp_all

lemma jx_static_malloc_without_wrap:
  assumes "unat (pool_offset a) + unat sz + 3 < 2 ^ 32"
  shows "jx_static_malloc (Some a) sz =
           (if sz = 0 \<or> unat (pool_size a) < unat (pool_offset a) + unat (ALIGN_4 sz)
            then (NULL, Some a)
            else (pool_start a + pool_offset a,
                  Some (a\<lparr>pool_offset := pool_offset a + ALIGN_4 sz\<rparr>)))"
    and "unat (pool_offset a + ALIGN_4 sz) = unat (pool_offset a) + unat (ALIGN_4 sz)"
proof -
  from assms have "unat sz + 3 < 2 ^ 32" by simp
  from ALIGN_4_bounds(2) [OF this] assms
  have "unat (pool_offset a) + unat (ALIGN_4 sz) < 2 ^ 32" by simp
  then show sum: "unat (pool_offset a + ALIGN_4 sz) = unat (pool_offset a) + unat (ALIGN_4 sz)"
    by (simp add: unat_word_ariths)
  show "jx_static_malloc (Some a) sz =
           (if sz = 0 \<or> unat (pool_size a) < unat (pool_offset a) + unat (ALIGN_4 sz)
            then (NULL, Some a)
            else (pool_start a + pool_offset a,
                  Some (a\<lparr>pool_offset := pool_offset a + ALIGN_4 sz\<rparr>)))"
    by (simp add: jx_static_malloc_def word_less_nat_alt sum)
qed

lemma jx_static_free_is_no_op: "jx_static_free al p = al"
  by (simp add: jx_static_free_def)

text \<open>
  C9 (failing input).  A 28-byte buffer gives a 16-byte pool.  After one 8-byte block, a
  request of \<open>0xFFFFFFFA\<close> bytes is rounded to \<open>0xFFFFFFFC\<close>; the sum
  \<open>pool_offset + size\<close> wraps around to 4, the test against \<open>pool_size\<close> passes, and the
  call hands out a non-null block starting 8 bytes into the pool, whose requested extent ends far
  outside the 16-byte pool.  The offset moves backwards to 4, so the next block overlaps the first.
\<close>

theorem jx_static_malloc_wraps_around:
  "jx_static_allocator_init None 0x20000000 28
     = (0x20000000, Some \<lparr>pool_start = 0x2000000C, pool_size = 16, pool_offset = 0\<rparr>)
   \<and> jx_static_malloc (Some \<lparr>pool_start = 0x2000000C, pool_size = 16, pool_offset = 0\<rparr>) 8
     = (0x2000000C, Some \<lparr>pool_start = 0x2000000C, pool_size = 16, pool_offset = 8\<rparr>)
   \<and> jx_static_malloc (Some \<lparr>pool_start = 0x2000000C, pool_size = 16, pool_offset = 8\<rparr>) 0xFFFFFFFA
     = (0x20000014, Some \<lparr>pool_start = 0x2000000C, pool_size = 16, pool_offset = 4\<rparr>)"
  by (simp add: jx_static_allocator_init_def jx_static_malloc_def ALIGN_4_def
      sizeof_jx_static_allocator_t_def NULL_def)

section \<open>Properties of the decoder\<close>

text \<open>
  C1 (failing input).  An Array element \<open>flags\<close> with two declared children.  Decoding a JSON
  array of one item sets \<open>value_len\<close> to 1 and marks the parent Updated, as the claim says.
  Decoding a JSON array of three items sets \<open>value_len\<close> to 3 and runs the item loop up to this
  new count: the third iteration reads \<^verbatim>\<open>element[i].element[2]\<close>, past the two children the
  caller declared.
\<close>

theorem array_longer_than_capacity_is_read_out_of_bounds: 
  "jx_object_to_struct (Some (cJSON_Object [(''flags'', cJSON_Array [cJSON_True])]))
       (Some flags_object) 0 1 JX_MODE_STRICT [[NUL, NUL]]
     = Inr (JX_SUCCESS,
            Some [JX_ELEMENT ''flags'' JX_ARRAY 1 None JX_ELEMENT_UPDATED
                    (Some [JX_ELEMENT [] JX_BOOLEAN 0 (Some (Pointer 0 0)) JX_ELEMENT_UPDATED None 0,
                           JX_ELEMENT [] JX_BOOLEAN 0 (Some (Pointer 0 1)) JX_ELEMENT_NOT_UPDATED None 0]) 0],
            [[CHR 0x01, NUL]])
   \<and> jx_object_to_struct
       (Some (cJSON_Object [(''flags'', cJSON_Array [cJSON_True, cJSON_False, cJSON_True])]))
       (Some flags_object) 0 1 JX_MODE_STRICT [[NUL, NUL]]
     = Inl OutOfBounds"
  by code_simp

text \<open>
  C2 (failing inputs).  The round trip of example.c itself: encoding \<open>test_struct\<close> yields the
  document of the example (the pool then has its memory back, the tree being released); decoding
  that document back into the same tree copies the name with
  \<^verbatim>\<open>strncpy(dest, value, JX_PROPERTY_MAX_SIZE)\<close>, which writes 50 bytes starting at
  \<open>test_struct.name\<close>: over the 32 bytes of \<open>name\<close>, over both coordinates, and two bytes past
  the end of the 48-byte object.  In the 56-byte variant the 50 bytes stay inside the object: the
  round trip succeeds, and the first two coordinates, decoded before the name, are left zero
  instead of 12 and 34.
\<close>

theorem round_trip_overruns_short_string_field:
  "jx_struct_to_json JX_USE_THREADX example_print example_world [test_struct]
       (Some user_object) 2 256 JX_MINIFIED
     = Inr (JX_SUCCESS, Some example_text, example_world\<lparr>ext := []\<rparr>)
   \<and> jx_json_to_struct JX_USE_THREADX example_parse example_world example_text
       (Some user_object) 2 JX_MODE_STRICT [test_struct]
     = Inl OutOfBounds
   \<and> jx_struct_to_json JX_USE_THREADX wide_print (example_world\<lparr>ext := replicate 9 0x20001000\<rparr>)
       [wide_struct] (Some wide_object) 2 256 JX_MINIFIED
     = Inr (JX_SUCCESS, Some wide_text, example_world\<lparr>ext := []\<rparr>)
   \<and> jx_json_to_struct JX_USE_THREADX wide_parse (example_world\<lparr>ext := replicate 9 0x20001000\<rparr>)
       wide_text (Some wide_object) 2 JX_MODE_STRICT [wide_struct]
     = Inr (JX_SUCCESS, Some wide_decoded, [''Adam'' @ replicate 50 NUL @ [CHR 0x28, CHR 0x40]],
            example_world\<lparr>ext := []\<rparr>)
   \<and> mem_read [wide_struct] (Some (Pointer 0 32)) 8 = Inr (double_bytes twelve)
   \<and> mem_read [''Adam'' @ replicate 50 NUL @ [CHR 0x28, CHR 0x40]] (Some (Pointer 0 32)) 8
       = Inr (replicate 8 NUL)"
  by code_simp

text \<open>
  A node of the wrong type under a Null, Boolean, Number, String or Object element: the element
  is marked not-updated, the memory is not written and the walk goes on, in both modes.
\<close>

lemma leaf_type_mismatch_clears_status:
  "type e = JX_NULL \<Longrightarrow> \<not> cJSON_IsNull object \<Longrightarrow>
     switch_type object e mode mem = Inr (JX_SUCCESS, jx_clear_status e, mem)"
  "type e = JX_BOOLEAN \<Longrightarrow> \<not> cJSON_IsBool object \<Longrightarrow>
     switch_type object e mode mem = Inr (JX_SUCCESS, jx_clear_status e, mem)"
  "type e = JX_NUMBER \<Longrightarrow> \<not> cJSON_IsNumber object \<Longrightarrow>
     switch_type object e mode mem = Inr (JX_SUCCESS, jx_clear_status e, mem)"
  "type e = JX_STRING \<Longrightarrow> \<not> cJSON_IsString object \<Longrightarrow>
     switch_type object e mode mem = Inr (JX_SUCCESS, jx_clear_status e, mem)"
  "type e = JX_OBJECT \<Longrightarrow> \<not> cJSON_IsObject object \<Longrightarrow>
     switch_type object e mode mem = Inr (JX_SUCCESS, jx_clear_status e, mem)"
  by (cases object; simp add: switch_type.simps object_to_leaf_def)+

text \<open>
  C4 (failing input).  An Array element whose node is a string: the array case has no type test,
  so the element is marked Updated and its \<open>value_len\<close> is overwritten with 0.  An array item
  whose node has the wrong type: the item is cleared by the inner call and then marked Updated by
  the item loop, although nothing was written to its memory.
\<close>

theorem array_type_mismatch_is_marked_updated:
  "jx_object_to_struct (Some (cJSON_Object [(''flags'', cJSON_String ''oops'')]))
       (Some flags_object) 0 1 JX_MODE_STRICT [[NUL, NUL]]
     = Inr (JX_SUCCESS,
            Some [JX_ELEMENT ''flags'' JX_ARRAY 0 None JX_ELEMENT_UPDATED (Some flag_pair) 0],
            [[NUL, NUL]])
   \<and> jx_object_to_struct (Some (cJSON_Object [(''flags'', cJSON_Array [cJSON_String ''yes''])]))
       (Some flags_object) 0 1 JX_MODE_RELAXED [[NUL, NUL]]
     = Inr (JX_SUCCESS,
            Some [JX_ELEMENT ''flags'' JX_ARRAY 1 None JX_ELEMENT_UPDATED
                    (Some [JX_ELEMENT [] JX_BOOLEAN 0 (Some (Pointer 0 0)) JX_ELEMENT_UPDATED None 0,
                           JX_ELEMENT [] JX_BOOLEAN 0 (Some (Pointer 0 1)) JX_ELEMENT_NOT_UPDATED None 0]) 0],
            [[NUL, NUL]])"
  by code_simp


















text \<open>
  \<open>strncpy\<close> with the count \<open>JX_PROPERTY_MAX_SIZE\<close>: the bytes it writes, and what a reader of
  the string finds after the write.
\<close>

lemma takeWhile_strlen: "takeWhile (\<lambda>c. c \<noteq> NUL) s = take (strlen s) s"
  by (simp add: strlen_def takeWhile_eq_take [symmetric])

lemma strncpy_bytes:
  "take n (takeWhile (\<lambda>c. c \<noteq> NUL) s) @ replicate (n - strlen s) NUL
     = (if n \<le> strlen s then take n s else take (strlen s) s @ replicate (n - strlen s) NUL)"
  by (simp add: takeWhile_strlen min_def)

lemma no_NUL_before_strlen: "n \<le> strlen s \<Longrightarrow> NUL \<notin> set (take n s)"
proof -
  assume "n \<le> strlen s"
  then have "take n s = take n (takeWhile (\<lambda>c. c \<noteq> NUL) s)"
    by (simp add: takeWhile_strlen min_def)
  then have "set (take n s) \<subseteq> set (takeWhile (\<lambda>c. c \<noteq> NUL) s)"
    by (simp add: set_take_subset)
  then show ?thesis by (auto dest: set_takeWhileD)
qed

lemma mem_write_result:
  "mem_write mem (Some q) cs =
     (if block q < length mem \<and> offset q + length cs \<le> length (mem ! block q)
      then Inr (mem[block q := take (offset q) (mem ! block q) @ cs
                                 @ drop (offset q + length cs) (mem ! block q)])
      else Inl OutOfBounds)"
  by (simp add: mem_write_def)

lemma read_string_after_write:
  assumes "block q < length mem" and "offset q + length cs \<le> length (mem ! block q)"
  shows "mem_read_string
           (mem[block q := take (offset q) (mem ! block q) @ cs
                             @ drop (offset q + length cs) (mem ! block q)]) (Some q)
         = (if NUL \<in> set cs then Inr (takeWhile (\<lambda>c. c \<noteq> NUL) cs)
            else if NUL \<in> set (drop (offset q + length cs) (mem ! block q))
            then Inr (cs @ takeWhile (\<lambda>c. c \<noteq> NUL) (drop (offset q + length cs) (mem ! block q)))
            else Inl OutOfBounds)"
  using assms by (auto simp: mem_read_string_def takeWhile_append)

text \<open>
  C10 (counterexample).  A source of 50 bytes decoded into a zero-filled buffer of 64 bytes: the
  decode writes the 50 bytes, and the buffer content is a null-terminated string, the byte after
  the copy being a NUL that the caller had there.
\<close>

theorem long_string_in_zeroed_buffer_is_terminated:
  "strlen (replicate 50 (CHR ''a'')) = 50
   \<and> jx_object_to_struct (Some (cJSON_Object [(''name'', cJSON_String (replicate 50 (CHR ''a'')))]))
        (Some [name_element]) 0 1 JX_MODE_STRICT [replicate 64 NUL]
       = Inr (JX_SUCCESS, Some [jx_set_updated name_element],
              [replicate 50 (CHR ''a'') @ replicate 14 NUL])
   \<and> mem_read_string [replicate 50 (CHR ''a'') @ replicate 14 NUL] (Some (Pointer 0 0))
       = Inr (replicate 50 (CHR ''a''))"
  by code_simp

text \<open>
  C10 (amended claim).  When decode writes a String field it writes exactly
  \<open>JX_PROPERTY_MAX_SIZE\<close> (50) bytes at the bound address and nothing else, and marks the element
  Updated; when fewer than 50 bytes are left in the bound object, the write runs past its end.  For
  a source of at least 50 bytes the bytes written are its first 50, none of them NUL, and no
  terminator is appended: the field is a null-terminated string only when a NUL already follows the
  copy in the caller's object, and the string then runs on to that NUL.  For any shorter source the
  bytes written are the source followed by NUL padding, and the field reads back as the source.
\<close>

theorem jx_set_string_writes_fifty_bytes:
  assumes "type e = JX_STRING" and "value_p e = Some q"
  shows "\<exists>cs. length cs = JX_PROPERTY_MAX_SIZE
           \<and> (JX_PROPERTY_MAX_SIZE \<le> strlen s \<longrightarrow> cs = take JX_PROPERTY_MAX_SIZE s \<and> NUL \<notin> set cs)
           \<and> (strlen s < JX_PROPERTY_MAX_SIZE \<longrightarrow>
                 cs = take (strlen s) s @ replicate (JX_PROPERTY_MAX_SIZE - strlen s) NUL)
           \<and> switch_type (cJSON_String s) e mode mem
               = (if block q < length mem
                     \<and> offset q + JX_PROPERTY_MAX_SIZE \<le> length (mem ! block q)
                  then Inr (JX_SUCCESS, jx_set_updated e,
                            mem[block q := take (offset q) (mem ! block q) @ cs
                                  @ drop (offset q + JX_PROPERTY_MAX_SIZE) (mem ! block q)])
                  else Inl OutOfBounds)
           \<and> (block q < length mem \<and> offset q + JX_PROPERTY_MAX_SIZE \<le> length (mem ! block q) \<longrightarrow>
                 mem_read_string
                   (mem[block q := take (offset q) (mem ! block q) @ cs
                          @ drop (offset q + JX_PROPERTY_MAX_SIZE) (mem ! block q)]) (Some q)
                 = (if strlen s < JX_PROPERTY_MAX_SIZE then Inr (take (strlen s) s)
                    else if NUL \<in> set (drop (offset q + JX_PROPERTY_MAX_SIZE) (mem ! block q))
                    then Inr (take JX_PROPERTY_MAX_SIZE s
                              @ takeWhile (\<lambda>c. c \<noteq> NUL)
                                  (drop (offset q + JX_PROPERTY_MAX_SIZE) (mem ! block q)))
                    else Inl OutOfBounds))"
proof -
  let ?n = JX_PROPERTY_MAX_SIZE
  define cs where "cs = take ?n (takeWhile (\<lambda>c. c \<noteq> NUL) s) @ replicate (?n - strlen s) NUL"
  have len: "length cs = ?n" by (simp add: cs_def strlen_def)
  have long: "?n \<le> strlen s \<Longrightarrow> cs = take ?n s \<and> NUL \<notin> set cs"
    using no_NUL_before_strlen [of ?n s] by (simp add: cs_def takeWhile_strlen min_def)
  have short: "strlen s < ?n \<Longrightarrow> cs = take (strlen s) s @ replicate (?n - strlen s) NUL"
    by (simp add: cs_def strncpy_bytes)
  have short_read: "strlen s < ?n \<Longrightarrow>
      NUL \<in> set cs \<and> takeWhile (\<lambda>c. c \<noteq> NUL) cs = take (strlen s) s"
    using no_NUL_before_strlen [of "strlen s" s] by (simp add: short takeWhile_append)
  have run: "switch_type (cJSON_String s) e mode mem
               = (if block q < length mem \<and> offset q + ?n \<le> length (mem ! block q)
                  then Inr (JX_SUCCESS, jx_set_updated e,
                            mem[block q := take (offset q) (mem ! block q) @ cs
                                  @ drop (offset q + ?n) (mem ! block q)])
                  else Inl OutOfBounds)"
  proof -
    have a: "switch_type (cJSON_String s) e mode mem
            = (case mem_write mem (Some q) cs of
                 Inl f \<Rightarrow> Inl f
               | Inr mem' \<Rightarrow> Inr (JX_SUCCESS, jx_set_updated e, mem'))"
      using assms
      by (simp add: switch_type.simps object_to_leaf_def jx_set_string_def strncpy_def cs_def
               split: sum.splits)
    show ?thesis unfolding a mem_write_result [of mem q cs, unfolded len] by simp
  qed
  have rd: "block q < length mem \<and> offset q + ?n \<le> length (mem ! block q) \<Longrightarrow>
                 mem_read_string
                   (mem[block q := take (offset q) (mem ! block q) @ cs
                          @ drop (offset q + ?n) (mem ! block q)]) (Some q)
                 = (if strlen s < ?n then Inr (take (strlen s) s)
                    else if NUL \<in> set (drop (offset q + ?n) (mem ! block q))
                    then Inr (take ?n s @ takeWhile (\<lambda>c. c \<noteq> NUL) (drop (offset q + ?n) (mem ! block q)))
                    else Inl OutOfBounds)"
  proof -
    assume room: "block q < length mem \<and> offset q + ?n \<le> length (mem ! block q)"
    then have r: "mem_read_string
           (mem[block q := take (offset q) (mem ! block q) @ cs
                             @ drop (offset q + ?n) (mem ! block q)]) (Some q)
         = (if NUL \<in> set cs then Inr (takeWhile (\<lambda>c. c \<noteq> NUL) cs)
            else if NUL \<in> set (drop (offset q + ?n) (mem ! block q))
            then Inr (cs @ takeWhile (\<lambda>c. c \<noteq> NUL) (drop (offset q + ?n) (mem ! block q)))
            else Inl OutOfBounds)"
      using read_string_after_write [of q mem cs, unfolded len] by simp
    show ?thesis
    proof (cases "strlen s < ?n")
      case True
      from short_read [OF True] True show ?thesis unfolding r by simp
    next
      case False
      then have "?n \<le> strlen s" by simp
      from long [OF this] have c: "cs = take ?n s" and d: "NUL \<notin> set (take ?n s)" by auto
      from False r show ?thesis by (simp add: c d)
    qed
  qed
  from len long short run rd show ?thesis by blast
qed

text \<open>
  C10 (witness): the \<open>name\<close> element of example.c; a long and a short source written into a buffer
  of 64 bytes that holds no NUL, and the short source written into a buffer of 32 bytes, the size
  example.c binds.
\<close>

theorem jx_set_string_witness:
  "type name_element = JX_STRING \<and> value_p name_element = Some (Pointer 0 0)
   \<and> JX_PROPERTY_MAX_SIZE \<le> strlen (replicate 50 (CHR ''a''))
   \<and> switch_type (cJSON_String (replicate 50 (CHR ''a''))) name_element JX_MODE_STRICT
        [replicate 64 (CHR ''x'')]
       = Inr (JX_SUCCESS, jx_set_updated name_element,
              [replicate 50 (CHR ''a'') @ replicate 14 (CHR ''x'')])
   \<and> mem_read_string [replicate 50 (CHR ''a'') @ replicate 14 (CHR ''x'')] (Some (Pointer 0 0))
       = Inl OutOfBounds
   \<and> strlen ''Adam'' < JX_PROPERTY_MAX_SIZE
   \<and> switch_type (cJSON_String ''Adam'') name_element JX_MODE_STRICT [replicate 64 (CHR ''x'')]
       = Inr (JX_SUCCESS, jx_set_updated name_element,
              [''Adam'' @ replicate 46 NUL @ replicate 14 (CHR ''x'')])
   \<and> mem_read_string [''Adam'' @ replicate 46 NUL @ replicate 14 (CHR ''x'')] (Some (Pointer 0 0))
       = Inr ''Adam''
   \<and> switch_type (cJSON_String ''Adam'') name_element JX_MODE_STRICT [replicate 32 NUL]
       = Inl OutOfBounds"
proof -
  have h1: "type name_element = JX_STRING" by (simp add: name_element_def)
  have h2: "value_p name_element = Some (Pointer 0 0)" by (simp add: name_element_def)
  have long: "strlen (replicate 50 (CHR ''a'')) = 50"
    by (simp add: strlen_def NUL_def)
  have short: "strlen ''Adam'' = 4"
    by (simp add: strlen_def NUL_def)
  have x: "NUL \<noteq> CHR ''x''" by (simp add: NUL_def)
  from jx_set_string_writes_fifty_bytes
         [OF h1 h2, of "replicate 50 (CHR ''a'')" JX_MODE_STRICT "[replicate 64 (CHR ''x'')]"]
  have a: "switch_type (cJSON_String (replicate 50 (CHR ''a''))) name_element JX_MODE_STRICT
        [replicate 64 (CHR ''x'')]
       = Inr (JX_SUCCESS, jx_set_updated name_element,
              [replicate 50 (CHR ''a'') @ replicate 14 (CHR ''x'')])
   \<and> mem_read_string [replicate 50 (CHR ''a'') @ replicate 14 (CHR ''x'')] (Some (Pointer 0 0))
       = Inl OutOfBounds"
    by (auto simp: long x JX_PROPERTY_MAX_SIZE_def)
  from jx_set_string_writes_fifty_bytes
         [OF h1 h2, of "''Adam''" JX_MODE_STRICT "[replicate 64 (CHR ''x'')]"]
  have b: "switch_type (cJSON_String ''Adam'') name_element JX_MODE_STRICT [replicate 64 (CHR ''x'')]
       = Inr (JX_SUCCESS, jx_set_updated name_element,
              [''Adam'' @ replicate 46 NUL @ replicate 14 (CHR ''x'')])
   \<and> mem_read_string [''Adam'' @ replicate 46 NUL @ replicate 14 (CHR ''x'')] (Some (Pointer 0 0))
       = Inr ''Adam''"
    by (auto simp: short JX_PROPERTY_MAX_SIZE_def)
  from jx_set_string_writes_fifty_bytes
         [OF h1 h2, of "''Adam''" JX_MODE_STRICT "[replicate 32 NUL]"]
  have c: "switch_type (cJSON_String ''Adam'') name_element JX_MODE_STRICT [replicate 32 NUL]
       = Inl OutOfBounds"
    by (auto simp: JX_PROPERTY_MAX_SIZE_def)
  from a b c h1 h2 long short show ?thesis by (simp add: JX_PROPERTY_MAX_SIZE_def)
qed

section \<open>Properties of the encoder\<close>

text \<open>
  C6 (failing input).  A Null element in first position produces no node.  A Null element that
  follows a Boolean element finds the local variable \<open>node\<close> still pointing to the Boolean's node,
  and attaches that node a second time, under the Null element's own name.
\<close>

theorem null_element_reattaches_previous_node:
  "jx_struct_to_object JX_USE_HEAP_BAREMETAL [[CHR 0x01], [NUL, NUL, NUL, NUL]] (Some (cJSON_Object []))
       (Some (rev flag_then_null)) 2 (initial_world [0x1000, 0x1010, 0x1020])
     = Inr (JX_SUCCESS, Some (cJSON_Object [(''flag'', cJSON_True)]), initial_world [0x1020])
   \<and> jx_struct_to_object JX_USE_HEAP_BAREMETAL [[CHR 0x01], [NUL, NUL, NUL, NUL]] (Some (cJSON_Object []))
       (Some flag_then_null) 2 (initial_world [0x1000, 0x1010, 0x1020])
     = Inr (JX_SUCCESS, Some (cJSON_Object [(''flag'', cJSON_True), (''nothing'', cJSON_True)]),
            initial_world [])"
  by code_simp

section \<open>Properties of the session\<close>

text \<open>
  The ThreadX, FreeRTOS/heap and custom-hook variants of \<open>jx_init\<close> test \<open>JSON_Parser\<close> and
  reject a second call, leaving the state as it is.
\<close>

lemma reinit_is_rejected:
  "JSON_Parser w \<noteq> None \<Longrightarrow> jx_init_threadx w pool = (JX_ERROR, w)"
  "JSON_Parser w \<noteq> None \<Longrightarrow> jx_init_heap cfg w = Inr (JX_ERROR, w)"
  "JSON_Parser w \<noteq> None \<Longrightarrow> jx_init_custom w user_hooks = (JX_ERROR, w)"
  by (simp_all add: jx_init_threadx_def jx_init_heap_def jx_init_custom_def split: option.splits)

text \<open>
  C7 (failing input).  Static build: \<open>jx_init\<close> on a 1024-byte buffer succeeds; a second
  \<open>jx_init\<close> on another buffer, with no \<open>jx_parser_deinit\<close> between them, succeeds too and
  rebinds the session and the allocator to the second buffer.
\<close>

theorem static_reinit_is_accepted:
  "jx_init_static (initial_world []) 0x20000000 1024
     = (JX_SUCCESS,
        \<lparr>JSON_Parser = Some (0x20000000,
            \<lparr>state = JX_INITIALIZED, parser_status = JX_SUCCESS,
             hooks = \<lparr>malloc_fn = Some hook_jx_static_malloc, free_fn = Some hook_jx_static_free,
                      reset_fn = True\<rparr>,
             byte_pool = 0, parser_allocator = 0x20000018\<rparr>),
         allocator = Some \<lparr>pool_start = 0x20000024, pool_size = 988, pool_offset = 0\<rparr>,
         cJSON_hooks = hook_jx_static_malloc, ext = []\<rparr>)
   \<and> jx_init_static (snd (jx_init_static (initial_world []) 0x20000000 1024)) 0x20001000 512
     = (JX_SUCCESS,
        \<lparr>JSON_Parser = Some (0x20001000,
            \<lparr>state = JX_INITIALIZED, parser_status = JX_SUCCESS,
             hooks = \<lparr>malloc_fn = Some hook_jx_static_malloc, free_fn = Some hook_jx_static_free,
                      reset_fn = True\<rparr>,
             byte_pool = 0, parser_allocator = 0x20001018\<rparr>),
         allocator = Some \<lparr>pool_start = 0x20001024, pool_size = 476, pool_offset = 0\<rparr>,
         cJSON_hooks = hook_jx_static_malloc, ext = []\<rparr>)"
  by code_simp

text \<open>
  Inside a session of the static build the tokenizer draws on the pool.  Decoding the text of one
  flag leaves the pool offset at 88: two nodes of 40 bytes and the 5 bytes of the name, rounded to
  8.  With a pool of 64 bytes the second node cannot be allocated, and the decode fails with
  nothing written.
\<close>

lemma static_decode_allocates_from_the_pool:
  "jx_json_to_struct JX_USE_BAREMETAL flag_parse static_session flag_text (Some one_flag) 1
       JX_MODE_STRICT [[NUL]]
     = Inr (JX_SUCCESS,
            Some [JX_ELEMENT ''flag'' JX_BOOLEAN 0 (Some (Pointer 0 0)) JX_ELEMENT_UPDATED None 0],
            [[CHR 0x01]],
            static_session\<lparr>allocator :=
              Some \<lparr>pool_start = 0x20000024, pool_size = 988, pool_offset = 88\<rparr>\<rparr>)
   \<and> jx_json_to_struct JX_USE_BAREMETAL flag_parse
       (snd (jx_init_static (initial_world []) 0x20000000 100)) flag_text (Some one_flag) 1
       JX_MODE_STRICT [[NUL]]
     = Inr (JX_ERROR, Some one_flag, [[NUL]],
            (snd (jx_init_static (initial_world []) 0x20000000 100))\<lparr>allocator :=
              Some \<lparr>pool_start = 0x20000024, pool_size = 64, pool_offset = 40\<rparr>\<rparr>)"
  by code_simp

text \<open>
  An allocation through a hook that reaches an outside allocator does not fault, returns what the
  same request returns before any \<open>jx_init\<close>, and changes nothing in the state but the answers
  of that allocator.
\<close>

lemma cJSON_malloc_external:
  "external_hook cfg w \<Longrightarrow> cJSON_malloc cfg w n = Inr (ext_malloc w)"
  by (cases "cJSON_hooks w"; cases cfg)
     (auto simp: external_hook_def cJSON_malloc_def jx_alloc_memory_def split: option.splits)

lemma external_hook_initial: "external_hook cfg (initial_world x)"
  by (simp add: external_hook_def initial_world_def)

lemma ext_malloc_step:
  "ext_malloc w = (p, w') \<Longrightarrow>
     ext_malloc (initial_world (ext w)) = (p, initial_world (ext w'))
     \<and> in_world w' = in_world w \<and> JSON_Parser w' = JSON_Parser w \<and> cJSON_hooks w' = cJSON_hooks w"
  by (auto simp: ext_malloc_def initial_world_def in_world_def fun_eq_iff split: list.splits)

lemma cJSON_malloc_never_faults:
  "external_hook cfg w \<Longrightarrow> cJSON_malloc cfg w n \<noteq> Inl f"
  by (simp add: cJSON_malloc_external)

lemma cJSON_malloc_step:
  assumes "external_hook cfg w" and "cJSON_malloc cfg w n = Inr (p, w')"
  shows "cJSON_malloc cfg' (initial_world (ext w)) n = Inr (p, initial_world (ext w'))
         \<and> external_hook cfg w' \<and> in_world w' = in_world w"
proof -
  from assms have e: "ext_malloc w = (p, w')" by (simp add: cJSON_malloc_external)
  note s = ext_malloc_step [OF e]
  from s assms(1) have "external_hook cfg w'"
    by (auto simp: external_hook_def split: malloc_hook.splits config.splits option.splits)
  with s show ?thesis by (simp add: cJSON_malloc_external [OF external_hook_initial])
qed

lemma cJSON_New_Item_step:
  assumes "external_hook cfg w" and "cJSON_New_Item cfg w item = Inr (x, w')"
  shows "cJSON_New_Item cfg' (initial_world (ext w)) item = Inr (x, initial_world (ext w'))
         \<and> external_hook cfg w' \<and> in_world w' = in_world w"
proof (cases "cJSON_malloc cfg w sizeof_cJSON")
  case (Inl f)
  with assms show ?thesis by (simp add: cJSON_New_Item_def)
next
  case (Inr r)
  obtain p w1 where r: "r = (p, w1)" by (cases r)
  note s = cJSON_malloc_step [OF assms(1) Inr [unfolded r], of cfg']
  from assms(2) Inr r have "x = (if p = NULL then None else Some item)" "w' = w1"
    by (simp_all add: cJSON_New_Item_def)
  with s show ?thesis by (simp add: cJSON_New_Item_def)
qed

lemma cJSON_New_Item_never_faults:
  "external_hook cfg w \<Longrightarrow> cJSON_New_Item cfg w item \<noteq> Inl f"
  by (simp add: cJSON_New_Item_def cJSON_malloc_external split: prod.splits)

lemma cJSON_strdup_step:
  assumes "external_hook cfg w" and "cJSON_strdup cfg w s = Inr (x, w')"
  shows "cJSON_strdup cfg' (initial_world (ext w)) s = Inr (x, initial_world (ext w'))
         \<and> external_hook cfg w' \<and> in_world w' = in_world w"
proof (cases "cJSON_malloc cfg w (of_nat (strlen s + 1))")
  case (Inl f)
  with assms show ?thesis by (simp add: cJSON_strdup_def)
next
  case (Inr r)
  obtain p w1 where r: "r = (p, w1)" by (cases r)
  note st = cJSON_malloc_step [OF assms(1) Inr [unfolded r], of cfg']
  from assms(2) Inr r have "x = (p \<noteq> NULL)" "w' = w1"
    by (simp_all add: cJSON_strdup_def)
  with st show ?thesis by (simp add: cJSON_strdup_def)
qed

lemma cJSON_strdup_never_faults:
  "external_hook cfg w \<Longrightarrow> cJSON_strdup cfg w s \<noteq> Inl f"
  by (simp add: cJSON_strdup_def cJSON_malloc_external split: prod.splits)

lemma cJSON_CreateString_step:
  assumes hk: "external_hook cfg w"
  shows "(cJSON_CreateString cfg w mem p = Inr (x, w') \<longrightarrow>
            cJSON_CreateString cfg' (initial_world (ext w)) mem p = Inr (x, initial_world (ext w'))
            \<and> external_hook cfg w' \<and> in_world w' = in_world w)
         \<and> (cJSON_CreateString cfg w mem p = Inl f \<longrightarrow>
            cJSON_CreateString cfg' (initial_world (ext w)) mem p = Inl f)"
proof (cases "cJSON_malloc cfg w sizeof_cJSON")
  case (Inl g)
  with cJSON_malloc_never_faults [OF hk] show ?thesis by simp
next
  case (Inr r)
  obtain q w1 where r: "r = (q, w1)" by (cases r)
  note a = Inr [unfolded r]
  note s1 = cJSON_malloc_step [OF hk a, of cfg']
  then have a': "cJSON_malloc cfg' (initial_world (ext w)) sizeof_cJSON
                   = Inr (q, initial_world (ext w1))"
    and hk1: "external_hook cfg w1" and iw1: "in_world w1 = in_world w" by simp_all
  show ?thesis
  proof (cases "q = NULL \<or> p = None")
    case True
    with a a' hk1 iw1 show ?thesis by (auto simp: cJSON_CreateString_def)
  next
    case False
    then obtain pa where q: "q \<noteq> NULL" and p: "p = Some pa" by auto
    show ?thesis
    proof (cases "mem_read_string mem p")
      case (Inl g)
      with a a' q p show ?thesis by (simp add: cJSON_CreateString_def)
    next
      case rd: (Inr s)
      show ?thesis
      proof (cases "cJSON_strdup cfg w1 s")
        case (Inl g)
        with cJSON_strdup_never_faults [OF hk1] show ?thesis by simp
      next
        case (Inr r2)
        obtain ok w2 where r2: "r2 = (ok, w2)" by (cases r2)
        note b = Inr [unfolded r2]
        note s2 = cJSON_strdup_step [OF hk1 b, of cfg']
        have L: "cJSON_CreateString cfg w mem p
                   = Inr (if ok then Some (cJSON_String s) else None, w2)"
          using a q p rd b by (simp add: cJSON_CreateString_def)
        have R: "cJSON_CreateString cfg' (initial_world (ext w)) mem p
                   = Inr (if ok then Some (cJSON_String s) else None, initial_world (ext w2))"
          using a' q p rd s2 by (simp add: cJSON_CreateString_def)
        from s2 iw1 show ?thesis by (auto simp: L R)
      qed
    qed
  qed
qed

lemma cJSON_AddItemToObject_step:
  assumes hk: "external_hook cfg w"
    and run: "cJSON_AddItemToObject cfg w object name item = Inr (b, x, w')"
  shows "cJSON_AddItemToObject cfg' (initial_world (ext w)) object name item
           = Inr (b, x, initial_world (ext w'))
         \<and> external_hook cfg w' \<and> in_world w' = in_world w"
proof (cases "cJSON_strdup cfg w name")
  case (Inl f)
  with run show ?thesis by (simp add: cJSON_AddItemToObject_def)
next
  case (Inr r)
  obtain ok w1 where r: "r = (ok, w1)" by (cases r)
  note a = Inr [unfolded r]
  note s = cJSON_strdup_step [OF hk a, of cfg']
  from run a have "w' = w1"
    by (auto simp: cJSON_AddItemToObject_def split: if_splits cJSON.splits)
  with run a s show ?thesis
    by (auto simp: cJSON_AddItemToObject_def split: if_splits cJSON.splits)
qed

lemma cJSON_AddItemToObject_never_faults:
  "external_hook cfg w \<Longrightarrow> cJSON_AddItemToObject cfg w object name item \<noteq> Inl f"
  using cJSON_strdup_never_faults [of cfg w name]
  by (cases "cJSON_strdup cfg w name")
     (auto simp: cJSON_AddItemToObject_def split: if_splits cJSON.splits)

text \<open>The encoder walk runs from such a state as it runs before any \<open>jx_init\<close>.\<close>

lemma same_run_from:
  "same_run cfg w1 r r' \<Longrightarrow> in_world w1 = in_world w \<Longrightarrow> same_run cfg w r r'"
  by (auto simp: same_run_def split: sum.splits)

lemma same_run_Inr:
  "same_run cfg w (Inr (st, x, w')) r' \<Longrightarrow>
     r' = Inr (st, x, initial_world (ext w')) \<and> external_hook cfg w' \<and> in_world w' = in_world w"
  by (simp add: same_run_def)

lemma same_run_Inl: "same_run cfg w (Inl f) r' \<Longrightarrow> r' = Inl f"
  by (simp add: same_run_def)

lemma same_run_here:
  "external_hook cfg w \<Longrightarrow> same_run cfg w (Inr (st, x, w)) (Inr (st, x, initial_world (ext w)))"
  by (simp add: same_run_def)

lemma encoder_runs_as_before_init:
  "external_hook cfg w \<Longrightarrow>
     same_run cfg w (jx_struct_to_object cfg mem object elem sz w)
       (jx_struct_to_object cfg' mem object elem sz (initial_world (ext w)))"
  "external_hook cfg w \<Longrightarrow>
     same_run cfg w (struct_for_elements cfg mem obj elem i sz node w)
       (struct_for_elements cfg' mem obj elem i sz node (initial_world (ext w)))"
  "external_hook cfg w \<Longrightarrow>
     same_run cfg w (struct_switch_type cfg mem e node w)
       (struct_switch_type cfg' mem e node (initial_world (ext w)))"
proof (induction cfg mem object elem sz w and cfg mem obj elem i sz node w and cfg mem e node w
       rule: jx_struct_to_object_struct_for_elements_struct_switch_type.induct)
  case (1 cfg mem object elem sz w)
  let ?p = "initial_world (ext w)"
  note hk = "1.prems"
  note unfold = jx_struct_to_object.simps [of cfg mem object elem sz w]
    jx_struct_to_object.simps [of cfg' mem object elem sz ?p]
  show ?case
  proof (cases object)
    case None
    with hk show ?thesis unfolding unfold by (simp add: same_run_def)
  next
    case (Some ob)
    show ?thesis
    proof (cases "sz = 0")
      case True
      with Some hk show ?thesis unfolding unfold by (simp add: same_run_def)
    next
      case False
      note ih = "1.IH" [OF Some False hk]
      show ?thesis
      proof (cases "struct_for_elements cfg mem ob elem 0 sz None w")
        case (Inl f)
        with ih Some False show ?thesis unfolding unfold by (simp add: same_run_def)
      next
        case (Inr r)
        obtain st ob' w1 where r: "r = (st, ob', w1)" by (cases r)
        note run = Inr [unfolded r]
        note s = same_run_Inr [OF ih [unfolded run]]
        from s run Some False show ?thesis unfolding unfold by (simp add: same_run_def)
      qed
    qed
  qed
next
  case (2 cfg mem obj elem i sz node w)
  let ?p = "initial_world (ext w)"
  note hk = "2.prems"
  note unfold = struct_for_elements.simps [of cfg mem obj elem i sz node w]
    struct_for_elements.simps [of cfg' mem obj elem i sz node ?p]
  show ?case
  proof (cases "sz \<le> i")
    case True
    with hk show ?thesis unfolding unfold by (simp add: same_run_def)
  next
    case more: False
    show ?thesis
    proof (cases elem)
      case None
      with more show ?thesis unfolding unfold by (simp add: same_run_def)
    next
      case (Some els)
      show ?thesis
      proof (cases "length els \<le> i")
        case True
        with more Some show ?thesis unfolding unfold by (simp add: same_run_def)
      next
        case inb: False
        note sw = "2.IH"(1) [OF more Some inb hk]
        show ?thesis
        proof (cases "struct_switch_type cfg mem (els ! i) node w")
          case (Inl f)
          note sw' = same_run_Inl [OF sw [unfolded Inl]]
          from more Some inb Inl sw' show ?thesis unfolding unfold by (simp add: same_run_def)
        next
          case (Inr r)
          obtain st nd w1 where r: "r = (st, nd, w1)" by (cases r)
          note run = Inr [unfolded r]
          note s = same_run_Inr [OF sw [unfolded run]]
          then have run': "struct_switch_type cfg' mem (els ! i) node ?p
                             = Inr (st, nd, initial_world (ext w1))"
            and hk1: "external_hook cfg w1" and iw1: "in_world w1 = in_world w" by simp_all
          show ?thesis
          proof (cases st)
            case JX_ERROR
            with more Some inb run run' hk1 iw1 show ?thesis
              unfolding unfold by (simp add: same_run_def)
          next
            case JX_SUCCESS
            show ?thesis
            proof (cases nd)
              case None
              have L: "struct_for_elements cfg' mem obj elem i sz node ?p
                         = struct_for_elements cfg' mem obj elem (Suc i) sz None
                             (initial_world (ext w1))"
                by (subst unfold(2)) (simp add: more Some inb run' JX_SUCCESS None)
              have R: "struct_for_elements cfg mem obj elem i sz node w
                         = struct_for_elements cfg mem obj elem (Suc i) sz None w1"
                by (subst unfold(1)) (simp add: more Some inb run JX_SUCCESS None)
              from same_run_from [OF "2.IH"(2) [OF more Some inb run refl JX_SUCCESS refl None hk1]
                                     iw1]
              show ?thesis by (simp only: L R)
            next
              case (Some n)
              note els = \<open>elem = Some els\<close>
              show ?thesis
              proof (cases "cJSON_IsArray obj")
                case True
                have L: "struct_for_elements cfg' mem obj elem i sz node ?p
                           = struct_for_elements cfg' mem (snd (cJSON_AddItemToArray obj n)) elem
                               (Suc i) sz (Some n) (initial_world (ext w1))"
                  by (subst unfold(2)) (simp add: more els inb run' JX_SUCCESS Some True)
                have R: "struct_for_elements cfg mem obj elem i sz node w
                           = struct_for_elements cfg mem (snd (cJSON_AddItemToArray obj n)) elem
                               (Suc i) sz (Some n) w1"
                  by (subst unfold(1)) (simp add: more els inb run JX_SUCCESS Some True)
                from same_run_from
                       [OF "2.IH"(3) [OF more els inb run refl JX_SUCCESS refl Some True hk1] iw1]
                show ?thesis by (simp only: L R)
              next
                case False
                show ?thesis
                proof (cases "cJSON_AddItemToObject cfg w1 obj (property (els ! i)) n")
                  case (Inl f)
                  with cJSON_AddItemToObject_never_faults [OF hk1] show ?thesis by simp
                next
                  case (Inr q)
                  obtain added obj' w2 where q: "q = (added, obj', w2)" by (cases q)
                  note add = Inr [unfolded q]
                  note a = cJSON_AddItemToObject_step [OF hk1 add, of cfg']
                  then have add': "cJSON_AddItemToObject cfg' (initial_world (ext w1)) obj
                                     (property (els ! i)) n
                                   = Inr (added, obj', initial_world (ext w2))"
                    and hk2: "external_hook cfg w2" and iw2: "in_world w2 = in_world w"
                    using iw1 by simp_all
                  have L: "struct_for_elements cfg' mem obj elem i sz node ?p
                             = struct_for_elements cfg' mem obj' elem (Suc i) sz (Some n)
                                 (initial_world (ext w2))"
                    by (subst unfold(2))
                       (simp add: more els inb run' JX_SUCCESS Some False add')
                  have R: "struct_for_elements cfg mem obj elem i sz node w
                             = struct_for_elements cfg mem obj' elem (Suc i) sz (Some n) w2"
                    by (subst unfold(1)) (simp add: more els inb run JX_SUCCESS Some False add)
                  from same_run_from
                         [OF "2.IH"(4) [OF more els inb run refl JX_SUCCESS refl Some False add
                                           refl refl hk2] iw2]
                  show ?thesis by (simp only: L R)
                qed
              qed
            qed
          qed
        qed
      qed
    qed
  qed
next
  case (3 cfg mem e node w)
  let ?p = "initial_world (ext w)"
  note hk = "3.prems"
  note unfold = struct_switch_type.simps [of cfg mem e node w]
    struct_switch_type.simps [of cfg' mem e node ?p]
  note creators = cJSON_CreateBool_def cJSON_CreateNumber_def cJSON_CreateObject_def
    cJSON_CreateArray_def
  have leaf: "same_run cfg w
                (case cJSON_New_Item cfg w item of Inl f \<Rightarrow> Inl f
                 | Inr (node', w') \<Rightarrow> Inr (JX_SUCCESS, node', w'))
                (case cJSON_New_Item cfg' ?p item of Inl f \<Rightarrow> Inl f
                 | Inr (node', w') \<Rightarrow> Inr (JX_SUCCESS, node', w'))" for item
  proof (cases "cJSON_New_Item cfg w item")
    case (Inl f)
    with cJSON_New_Item_never_faults [OF hk] show ?thesis by simp
  next
    case (Inr r)
    obtain x w1 where r: "r = (x, w1)" by (cases r)
    from cJSON_New_Item_step [OF hk Inr [unfolded r], of cfg'] Inr r
    show ?thesis by (simp add: same_run_def)
  qed
  show ?case
  proof (cases "type e")
    case JX_STRING
    show ?thesis
    proof (cases "cJSON_CreateString cfg w mem (value_p e)")
      case (Inl f)
      with cJSON_CreateString_step [OF hk, where mem = mem and p = "value_p e" and f = f
                                        and cfg' = cfg'] JX_STRING
      show ?thesis unfolding unfold by (simp add: same_run_def)
    next
      case (Inr r)
      obtain x w1 where r: "r = (x, w1)" by (cases r)
      from cJSON_CreateString_step [OF hk, where mem = mem and p = "value_p e" and x = x
                                        and w' = w1 and cfg' = cfg'] Inr r JX_STRING
      show ?thesis unfolding unfold by (simp add: same_run_def)
    qed
  next
    case JX_NUMBER
    show ?thesis
    proof (cases "mem_read mem (value_p e) 8")
      case (Inl f)
      with JX_NUMBER show ?thesis unfolding unfold by (simp add: same_run_def)
    next
      case (Inr bs)
      with JX_NUMBER leaf [of "cJSON_Number (bytes_double bs)"] show ?thesis
        unfolding unfold by (simp add: creators)
    qed
  next
    case JX_BOOLEAN
    show ?thesis
    proof (cases "mem_read mem (value_p e) 1")
      case (Inl f)
      with JX_BOOLEAN show ?thesis unfolding unfold by (simp add: same_run_def)
    next
      case (Inr bs)
      with JX_BOOLEAN leaf [of "if bs \<noteq> [NUL] then cJSON_True else cJSON_False"] show ?thesis
        unfolding unfold by (simp add: creators)
    qed
  next
    case JX_OBJECT
    show ?thesis
    proof (cases "cJSON_CreateObject cfg w")
      case (Inl f)
      with cJSON_New_Item_never_faults [OF hk] show ?thesis by (simp add: creators)
    next
      case (Inr r)
      obtain node' w' where r: "r = (node', w')" by (cases r)
      note made = Inr [unfolded r]
      note a = cJSON_New_Item_step [OF hk made [unfolded cJSON_CreateObject_def], of cfg']
      then have made': "cJSON_CreateObject cfg' ?p = Inr (node', initial_world (ext w'))"
        and hk': "external_hook cfg w'" and iw': "in_world w' = in_world w"
        by (simp_all add: creators)
      have L: "struct_switch_type cfg' mem e node ?p
                 = jx_struct_to_object cfg' mem node' (element e) (unat (value_len e))
                     (initial_world (ext w'))"
        by (subst unfold(2)) (simp add: JX_OBJECT made')
      have R: "struct_switch_type cfg mem e node w
                 = jx_struct_to_object cfg mem node' (element e) (unat (value_len e)) w'"
        by (subst unfold(1)) (simp add: JX_OBJECT made)
      from same_run_from [OF "3.IH"(2) [OF JX_OBJECT made refl hk'] iw']
      show ?thesis by (simp only: L R)
    qed
  next
    case JX_ARRAY
    show ?thesis
    proof (cases "cJSON_CreateArray cfg w")
      case (Inl f)
      with cJSON_New_Item_never_faults [OF hk] show ?thesis by (simp add: creators)
    next
      case (Inr r)
      obtain node' w' where r: "r = (node', w')" by (cases r)
      note made = Inr [unfolded r]
      note a = cJSON_New_Item_step [OF hk made [unfolded cJSON_CreateArray_def], of cfg']
      then have made': "cJSON_CreateArray cfg' ?p = Inr (node', initial_world (ext w'))"
        and hk': "external_hook cfg w'" and iw': "in_world w' = in_world w"
        by (simp_all add: creators)
      have L: "struct_switch_type cfg' mem e node ?p
                 = jx_struct_to_object cfg' mem node' (element e) (unat (value_len e))
                     (initial_world (ext w'))"
        by (subst unfold(2)) (simp add: JX_ARRAY made')
      have R: "struct_switch_type cfg mem e node w
                 = jx_struct_to_object cfg mem node' (element e) (unat (value_len e)) w'"
        by (subst unfold(1)) (simp add: JX_ARRAY made)
      from same_run_from [OF "3.IH"(1) [OF JX_ARRAY made refl hk'] iw']
      show ?thesis by (simp only: L R)
    qed
  next
    case JX_NULL
    with hk show ?thesis unfolding unfold by (simp add: same_run_def)
  next
    case JX_INVALID
    with hk show ?thesis unfolding unfold by (simp add: same_run_def)
  qed
qed

text \<open>So do the allocations of the tokenizer and the two top-level operations.\<close>

lemma allocate_all_step:
  "external_hook cfg w \<Longrightarrow>
     (allocate_all cfg w ns = Inr (ok, w') \<longrightarrow>
        allocate_all cfg' (initial_world (ext w)) ns = Inr (ok, initial_world (ext w'))
        \<and> external_hook cfg w' \<and> in_world w' = in_world w)
     \<and> allocate_all cfg w ns \<noteq> Inl f"
proof (induction ns arbitrary: w)
  case Nil
  then show ?case by auto
next
  case (Cons n ns)
  note hk = Cons.prems
  show ?case
  proof (cases "cJSON_malloc cfg w n")
    case (Inl g)
    with cJSON_malloc_never_faults [OF hk] show ?thesis by simp
  next
    case (Inr r)
    obtain p w1 where r: "r = (p, w1)" by (cases r)
    note a = Inr [unfolded r]
    note s = cJSON_malloc_step [OF hk a, of cfg']
    then have a': "cJSON_malloc cfg' (initial_world (ext w)) n = Inr (p, initial_world (ext w1))"
      and hk1: "external_hook cfg w1" and iw1: "in_world w1 = in_world w" by simp_all
    show ?thesis
    proof (cases "p = NULL")
      case True
      with a a' hk1 iw1 show ?thesis by auto
    next
      case False
      with a a' Cons.IH [OF hk1] iw1 show ?thesis by simp
    qed
  qed
qed

lemma cJSON_Parse_step:
  assumes hk: "external_hook cfg w"
  shows "(cJSON_Parse cfg tokenizer w buffer = Inr (x, w') \<longrightarrow>
            cJSON_Parse cfg' tokenizer (initial_world (ext w)) buffer
              = Inr (x, initial_world (ext w'))
            \<and> external_hook cfg w' \<and> in_world w' = in_world w)
         \<and> cJSON_Parse cfg tokenizer w buffer \<noteq> Inl f"
proof (cases "tokenizer buffer")
  case (Parsed t)
  let ?ns = "sizeof_cJSON # content_requests t"
  show ?thesis
  proof (cases "allocate_all cfg w ?ns")
    case (Inl g)
    with allocate_all_step [OF hk, of ?ns] show ?thesis by blast
  next
    case (Inr r)
    obtain ok w1 where r: "r = (ok, w1)" by (cases r)
    note a = Inr [unfolded r]
    from allocate_all_step [OF hk, where ns = ?ns and ok = ok and w' = w1 and cfg' = cfg'] a
    have a': "allocate_all cfg' (initial_world (ext w)) ?ns = Inr (ok, initial_world (ext w1))"
      and hk1: "external_hook cfg w1" and iw1: "in_world w1 = in_world w" by simp_all
    have L: "cJSON_Parse cfg tokenizer w buffer = Inr (if ok then Some t else None, w1)"
      using Parsed a by (simp add: cJSON_Parse_def)
    have R: "cJSON_Parse cfg' tokenizer (initial_world (ext w)) buffer
               = Inr (if ok then Some t else None, initial_world (ext w1))"
      using Parsed a' by (simp add: cJSON_Parse_def)
    from hk1 iw1 show ?thesis by (auto simp: L R)
  qed
next
  case (Malformed t)
  let ?ns = "sizeof_cJSON # content_requests t"
  show ?thesis
  proof (cases "allocate_all cfg w ?ns")
    case (Inl g)
    with allocate_all_step [OF hk, of ?ns] show ?thesis by blast
  next
    case (Inr r)
    obtain ok w1 where r: "r = (ok, w1)" by (cases r)
    note a = Inr [unfolded r]
    from allocate_all_step [OF hk, where ns = ?ns and ok = ok and w' = w1 and cfg' = cfg'] a
    have a': "allocate_all cfg' (initial_world (ext w)) ?ns = Inr (ok, initial_world (ext w1))"
      and hk1: "external_hook cfg w1" and iw1: "in_world w1 = in_world w" by simp_all
    have L: "cJSON_Parse cfg tokenizer w buffer = Inr (None, w1)"
      using Malformed a by (simp add: cJSON_Parse_def)
    have R: "cJSON_Parse cfg' tokenizer (initial_world (ext w)) buffer
               = Inr (None, initial_world (ext w1))"
      using Malformed a' by (simp add: cJSON_Parse_def)
    from hk1 iw1 show ?thesis by (auto simp: L R)
  qed
qed

lemma in_world_self: "in_world w' = in_world w \<Longrightarrow> w\<lparr>ext := ext w'\<rparr> = w'"
proof -
  assume "in_world w' = in_world w"
  then have "in_world w' w' = in_world w w'" by simp
  then show ?thesis by (simp add: in_world_def)
qed

lemma begin_operation_external:
  "external_hook cfg w \<Longrightarrow> external_hook cfg (begin_operation cfg w)"
  "ext (begin_operation cfg w) = ext w"
  "begin_operation cfg' (initial_world x) = initial_world x"
  by (auto simp: begin_operation_def external_hook_def initial_world_def jx_static_reset_def
           split: malloc_hook.splits config.splits option.splits)

lemma ext_initial_world: "ext (initial_world x) = x"
  by (simp add: initial_world_def)

lemma external_hook_after_deinit:
  "JSON_Parser v \<noteq> None \<Longrightarrow> external_hook cfg (jx_parser_deinit v)"
  by (auto simp: jx_parser_deinit_def external_hook_def)

lemma encode_as_before_init:
  assumes hk: "external_hook cfg w"
  shows "(case jx_struct_to_json cfg' printer (initial_world (ext w)) mem elem elem_size
                 buffer_size format of
            Inl f \<Rightarrow>
              jx_struct_to_json cfg printer w mem elem elem_size buffer_size format = Inl f
          | Inr (st, text, p) \<Rightarrow>
              jx_struct_to_json cfg printer w mem elem elem_size buffer_size format
                = Inr (st, text, (begin_operation cfg w)\<lparr>ext := ext p\<rparr>))"
proof -
  let ?w0 = "begin_operation cfg w"
  note hk0 = begin_operation_external(1) [OF hk]
  note b = begin_operation_external(2) [of cfg w] begin_operation_external(3) [of cfg' "ext w"]
  show ?thesis
  proof (cases "cJSON_New_Item cfg ?w0 (cJSON_Object [])")
    case (Inl f)
    with cJSON_New_Item_never_faults [OF hk0] show ?thesis by simp
  next
    case (Inr r)
    obtain x w1 where r: "r = (x, w1)" by (cases r)
    note made = Inr [unfolded r]
    from cJSON_New_Item_step [OF hk0 made, of cfg']
    have made': "cJSON_New_Item cfg' (initial_world (ext w)) (cJSON_Object [])
                   = Inr (x, initial_world (ext w1))"
      and hk1: "external_hook cfg w1" and iw1: "in_world w1 = in_world ?w0"
      by (simp_all add: b)
    show ?thesis
    proof (cases x)
      case None
      with made made' in_world_self [OF iw1] show ?thesis
        by (simp add: jx_struct_to_json_def cJSON_CreateObject_def b ext_initial_world)
    next
      case (Some object)
      note walk = encoder_runs_as_before_init(1)
                    [OF hk1, of mem "Some object" elem elem_size cfg']
      show ?thesis
      proof (cases "jx_struct_to_object cfg mem (Some object) elem elem_size w1")
        case (Inl f)
        note walk' = same_run_Inl [OF walk [unfolded Inl]]
        from made made' Some Inl walk' show ?thesis
          by (simp add: jx_struct_to_json_def cJSON_CreateObject_def b)
      next
        case (Inr q)
        obtain st ob w2 where q: "q = (st, ob, w2)" by (cases q)
        note run = Inr [unfolded q]
        note s = same_run_Inr [OF walk [unfolded run]]
        then have run': "jx_struct_to_object cfg' mem (Some object) elem elem_size
                           (initial_world (ext w1)) = Inr (st, ob, initial_world (ext w2))"
          and iw2: "in_world w2 = in_world ?w0" using iw1 by simp_all
        from made made' Some run run' in_world_self [OF iw2] show ?thesis
          by (simp add: jx_struct_to_json_def cJSON_CreateObject_def b ext_initial_world
                   split: JX_STATUS.splits option.splits)
      qed
    qed
  qed
qed

lemma decode_as_before_init:
  assumes hk: "external_hook cfg w"
  shows "(case jx_json_to_struct cfg' tokenizer (initial_world (ext w)) buffer elem elem_size
                 mode mem of
            Inl f \<Rightarrow> jx_json_to_struct cfg tokenizer w buffer elem elem_size mode mem = Inl f
          | Inr (st, elem', mem', p) \<Rightarrow>
              jx_json_to_struct cfg tokenizer w buffer elem elem_size mode mem
                = Inr (st, elem', mem', (begin_operation cfg w)\<lparr>ext := ext p\<rparr>))"
proof -
  let ?w0 = "begin_operation cfg w"
  note hk0 = begin_operation_external(1) [OF hk]
  note b = begin_operation_external(2) [of cfg w] begin_operation_external(3) [of cfg' "ext w"]
  show ?thesis
  proof (cases "cJSON_Parse cfg tokenizer ?w0 buffer")
    case (Inl f)
    with cJSON_Parse_step [OF hk0, of tokenizer buffer] show ?thesis by blast
  next
    case (Inr r)
    obtain x w1 where r: "r = (x, w1)" by (cases r)
    note parsed = Inr [unfolded r]
    from cJSON_Parse_step [OF hk0, where tokenizer = tokenizer and buffer = buffer and x = x
                                     and w' = w1 and cfg' = cfg'] parsed
    have parsed': "cJSON_Parse cfg' tokenizer (initial_world (ext w)) buffer
                     = Inr (x, initial_world (ext w1))"
      and iw1: "in_world w1 = in_world ?w0"
      by (simp_all add: b)
    from parsed parsed' in_world_self [OF iw1] show ?thesis
      by (simp add: jx_json_to_struct_def b ext_initial_world
               split: option.splits sum.splits prod.splits)
  qed
qed

text \<open>With no memory left in the outside allocator, both operations fail at the root node.\<close>

lemma no_memory_fails_at_once:
  assumes hk: "external_hook cfg w" and none: "ext w = []"
  shows "jx_struct_to_json cfg printer w mem elem elem_size buffer_size format
           = Inr (JX_ERROR, None, begin_operation cfg w)"
    and "jx_json_to_struct cfg tokenizer w buffer elem elem_size mode mem
           = Inr (JX_ERROR, elem, mem, begin_operation cfg w)"
proof -
  let ?w0 = "begin_operation cfg w"
  note hk0 = begin_operation_external(1) [OF hk]
  have m: "cJSON_malloc cfg ?w0 n = Inr (NULL, ?w0)" for n
    using none by (simp add: cJSON_malloc_external [OF hk0] ext_malloc_def
                             begin_operation_external(2))
  show "jx_struct_to_json cfg printer w mem elem elem_size buffer_size format
           = Inr (JX_ERROR, None, begin_operation cfg w)"
    by (simp add: jx_struct_to_json_def cJSON_CreateObject_def cJSON_New_Item_def m)
  show "jx_json_to_struct cfg tokenizer w buffer elem elem_size mode mem
           = Inr (JX_ERROR, elem, mem, begin_operation cfg w)"
    by (cases "tokenizer buffer") (simp_all add: jx_json_to_struct_def cJSON_Parse_def m)
qed

text \<open>
  C5 (counterexample).  Static build: after \<open>jx_init\<close>, one encode and \<open>jx_parser_deinit\<close> there
  is no session, the codec is back on its default hook and the allocator is still bound to the
  buffer.  \<open>jx_struct_to_json\<close> called in that state returns success with the text, and has
  written the pool offset of the allocator (88 before the call, 0 after it).  ThreadX build:
  \<open>jx_json_to_struct\<close> called before any \<open>jx_init\<close> returns success, having allocated the tree
  from the C library and written the flag.
\<close>

theorem operations_outside_a_session_succeed:
  "fst (jx_init_static (initial_world [0x1000, 0x1030, 0x1060]) 0x20000000 1024) = JX_SUCCESS
   \<and> jx_struct_to_json JX_USE_BAREMETAL flag_print static_session [[CHR 0x01]] (Some one_flag) 1
         256 JX_MINIFIED
       = Inr (JX_SUCCESS, Some flag_text,
              static_session\<lparr>allocator :=
                Some \<lparr>pool_start = 0x20000024, pool_size = 988, pool_offset = 88\<rparr>\<rparr>)
   \<and> jx_parser_deinit (static_session\<lparr>allocator :=
         Some \<lparr>pool_start = 0x20000024, pool_size = 988, pool_offset = 88\<rparr>\<rparr>) = after_deinit
   \<and> JSON_Parser after_deinit = None
   \<and> jx_struct_to_json JX_USE_BAREMETAL flag_print after_deinit [[CHR 0x01]] (Some one_flag) 1
         256 JX_MINIFIED
       = Inr (JX_SUCCESS, Some flag_text,
              \<lparr>JSON_Parser = None,
               allocator = Some \<lparr>pool_start = 0x20000024, pool_size = 988, pool_offset = 0\<rparr>,
               cJSON_hooks = libc_malloc, ext = []\<rparr>)
   \<and> JSON_Parser (initial_world [0x1000, 0x1030, 0x1060]) = None
   \<and> jx_json_to_struct JX_USE_THREADX flag_parse (initial_world [0x1000, 0x1030, 0x1060])
         flag_text (Some one_flag) 1 JX_MODE_STRICT [[NUL]]
       = Inr (JX_SUCCESS,
              Some [JX_ELEMENT ''flag'' JX_BOOLEAN 0 (Some (Pointer 0 0)) JX_ELEMENT_UPDATED None 0],
              [[CHR 0x01]], initial_world [])"
  by code_simp

text \<open>
  C5 (amended claim).  A call of \<open>jx_struct_to_json\<close> or \<open>jx_json_to_struct\<close> before \<open>jx_init\<close> or
  after \<open>jx_parser_deinit\<close> is not rejected: neither operation consults the session.  In those two
  states, and in every state where the codec's allocation hook reaches an allocator outside the
  static pool (the sessions of the ThreadX, FreeRTOS, heap and custom builds), the operation
  returns the fault, or the status and the results, that it returns before any \<open>jx_init\<close>, in any
  build, with the same answers of the allocator; it changes nothing in the state but those
  answers, after the reset of the pool offset in the static build.  It fails at once when that
  allocator has no memory left.
\<close>

theorem operations_run_as_before_init:
  "external_hook cfg (initial_world ps)
   \<and> (JSON_Parser v \<noteq> None \<longrightarrow> external_hook cfg (jx_parser_deinit v))
   \<and> (external_hook cfg w \<longrightarrow>
        (case jx_struct_to_json cfg' printer (initial_world (ext w)) mem elem elem_size
                buffer_size format of
           Inl f \<Rightarrow>
             jx_struct_to_json cfg printer w mem elem elem_size buffer_size format = Inl f
         | Inr (st, text, p) \<Rightarrow>
             jx_struct_to_json cfg printer w mem elem elem_size buffer_size format
               = Inr (st, text, (begin_operation cfg w)\<lparr>ext := ext p\<rparr>))
        \<and> (case jx_json_to_struct cfg' tokenizer (initial_world (ext w)) buffer elem elem_size
                   mode mem of
              Inl f \<Rightarrow> jx_json_to_struct cfg tokenizer w buffer elem elem_size mode mem = Inl f
            | Inr (st, elem', mem', p) \<Rightarrow>
                jx_json_to_struct cfg tokenizer w buffer elem elem_size mode mem
                  = Inr (st, elem', mem', (begin_operation cfg w)\<lparr>ext := ext p\<rparr>))
        \<and> (ext w = [] \<longrightarrow>
              jx_struct_to_json cfg printer w mem elem elem_size buffer_size format
                = Inr (JX_ERROR, None, begin_operation cfg w)
              \<and> jx_json_to_struct cfg tokenizer w buffer elem elem_size mode mem
                = Inr (JX_ERROR, elem, mem, begin_operation cfg w)))"
  using external_hook_initial [of cfg ps] external_hook_after_deinit [of v cfg]
    encode_as_before_init [where cfg = cfg and w = w and cfg' = cfg' and printer = printer
       and mem = mem and elem = elem and elem_size = elem_size and buffer_size = buffer_size
       and format = format]
    decode_as_before_init [where cfg = cfg and w = w and cfg' = cfg' and tokenizer = tokenizer
       and buffer = buffer and mem = mem and elem = elem and elem_size = elem_size and mode = mode]
    no_memory_fails_at_once(1) [where cfg = cfg and w = w and printer = printer
       and mem = mem and elem = elem and elem_size = elem_size and buffer_size = buffer_size
       and format = format]
    no_memory_fails_at_once(2) [where cfg = cfg and w = w and tokenizer = tokenizer
       and buffer = buffer and mem = mem and elem = elem and elem_size = elem_size and mode = mode]
  by blast

text \<open>
  C5 (witness): a session of the ThreadX build against the state before \<open>jx_init\<close> of the static
  build, and the state after \<open>jx_parser_deinit\<close> of the static build with no memory left in the C
  library.
\<close>

theorem operations_run_as_before_init_witness:
  "JSON_Parser example_world \<noteq> None
   \<and> external_hook JX_USE_THREADX (jx_parser_deinit example_world)
   \<and> external_hook JX_USE_THREADX example_world
   \<and> jx_struct_to_json JX_USE_BAREMETAL flag_print (initial_world (ext example_world))
         [[CHR 0x01]] (Some one_flag) 1 256 JX_MINIFIED
       = Inr (JX_SUCCESS, Some flag_text, initial_world (replicate 5 0x20001000))
   \<and> jx_struct_to_json JX_USE_THREADX flag_print example_world [[CHR 0x01]] (Some one_flag) 1
         256 JX_MINIFIED
       = Inr (JX_SUCCESS, Some flag_text, example_world\<lparr>ext := replicate 5 0x20001000\<rparr>)
   \<and> jx_json_to_struct JX_USE_BAREMETAL flag_parse (initial_world (ext example_world)) flag_text
         (Some one_flag) 1 JX_MODE_STRICT [[NUL]]
       = Inr (JX_SUCCESS,
              Some [JX_ELEMENT ''flag'' JX_BOOLEAN 0 (Some (Pointer 0 0)) JX_ELEMENT_UPDATED None 0],
              [[CHR 0x01]], initial_world (replicate 5 0x20001000))
   \<and> jx_json_to_struct JX_USE_THREADX flag_parse example_world flag_text
         (Some one_flag) 1 JX_MODE_STRICT [[NUL]]
       = Inr (JX_SUCCESS,
              Some [JX_ELEMENT ''flag'' JX_BOOLEAN 0 (Some (Pointer 0 0)) JX_ELEMENT_UPDATED None 0],
              [[CHR 0x01]], example_world\<lparr>ext := replicate 5 0x20001000\<rparr>)
   \<and> external_hook JX_USE_BAREMETAL (after_deinit\<lparr>ext := []\<rparr>)
   \<and> ext (after_deinit\<lparr>ext := []\<rparr>) = []
   \<and> jx_struct_to_json JX_USE_BAREMETAL flag_print (after_deinit\<lparr>ext := []\<rparr>) [[CHR 0x01]]
         (Some one_flag) 1 256 JX_MINIFIED
       = Inr (JX_ERROR, None,
              \<lparr>JSON_Parser = None,
               allocator = Some \<lparr>pool_start = 0x20000024, pool_size = 988, pool_offset = 0\<rparr>,
               cJSON_hooks = libc_malloc, ext = []\<rparr>)
   \<and> jx_json_to_struct JX_USE_BAREMETAL flag_parse (after_deinit\<lparr>ext := []\<rparr>) flag_text
         (Some one_flag) 1 JX_MODE_STRICT [[NUL]]
       = Inr (JX_ERROR, Some one_flag, [[NUL]],
              \<lparr>JSON_Parser = None,
               allocator = Some \<lparr>pool_start = 0x20000024, pool_size = 988, pool_offset = 0\<rparr>,
               cJSON_hooks = libc_malloc, ext = []\<rparr>)"
proof -
  have s: "JSON_Parser example_world \<noteq> None" by code_simp
  have hk: "external_hook JX_USE_THREADX example_world" by code_simp
  have enc: "jx_struct_to_json JX_USE_BAREMETAL flag_print (initial_world (ext example_world))
               [[CHR 0x01]] (Some one_flag) 1 256 JX_MINIFIED
             = Inr (JX_SUCCESS, Some flag_text, initial_world (replicate 5 0x20001000))"
    by code_simp
  have dec: "jx_json_to_struct JX_USE_BAREMETAL flag_parse (initial_world (ext example_world))
               flag_text (Some one_flag) 1 JX_MODE_STRICT [[NUL]]
             = Inr (JX_SUCCESS,
                    Some [JX_ELEMENT ''flag'' JX_BOOLEAN 0 (Some (Pointer 0 0)) JX_ELEMENT_UPDATED
                            None 0],
                    [[CHR 0x01]], initial_world (replicate 5 0x20001000))"
    by code_simp
  have hk0: "external_hook JX_USE_BAREMETAL (after_deinit\<lparr>ext := []\<rparr>)" by code_simp
  have beg: "begin_operation JX_USE_THREADX example_world = example_world"
    by (simp add: begin_operation_def)
  have beg0: "begin_operation JX_USE_BAREMETAL (after_deinit\<lparr>ext := []\<rparr>)
                = \<lparr>JSON_Parser = None,
                   allocator = Some \<lparr>pool_start = 0x20000024, pool_size = 988, pool_offset = 0\<rparr>,
                   cJSON_hooks = libc_malloc, ext = []\<rparr>"
    by code_simp
  note t = operations_run_as_before_init
             [where cfg = JX_USE_THREADX and cfg' = JX_USE_BAREMETAL and w = example_world
                and v = example_world and printer = flag_print and tokenizer = flag_parse
                and buffer = flag_text and elem = "Some one_flag" and elem_size = 1
                and buffer_size = 256 and format = JX_MINIFIED and mode = JX_MODE_STRICT]
  note t0 = operations_run_as_before_init
             [where cfg = JX_USE_BAREMETAL and w = "after_deinit\<lparr>ext := []\<rparr>"
                and printer = flag_print and tokenizer = flag_parse
                and buffer = flag_text and elem = "Some one_flag" and elem_size = 1
                and buffer_size = 256 and format = JX_MINIFIED and mode = JX_MODE_STRICT
                and mem = "[[NUL]]"]
  note t1 = operations_run_as_before_init
             [where cfg = JX_USE_BAREMETAL and w = "after_deinit\<lparr>ext := []\<rparr>"
                and printer = flag_print and tokenizer = flag_parse
                and buffer = flag_text and elem = "Some one_flag" and elem_size = 1
                and buffer_size = 256 and format = JX_MINIFIED and mode = JX_MODE_STRICT
                and mem = "[[CHR 0x01]]"]
  from t [where mem = "[[CHR 0x01]]"] t [where mem = "[[NUL]]"] t0 t1 s hk hk0
  show ?thesis
    by (simp add: enc dec beg beg0 ext_initial_world del: One_nat_def)
qed

end
